theory Spec2Isabelle
  imports Main "HOL-Library.AList"
begin

section \<open>Values\<close>

text \<open>
  The middleware handles dynamically typed values (Go's \<open>any\<close>): the decoded
  \<open>require\<close> configuration and the claims of a parsed token. The parser is built with
  \<open>jwt.WithJSONNumber()\<close>, so a number in a token is a \<open>json.Number\<close> (its text); a
  number in the configuration is an \<open>int\<close> or a \<open>float64\<close>. A \<open>map[string]any\<close> is an
  association list with distinct keys; no function below depends on the order of its
  entries otherwise than by the order in which errors are reported.

  Floating point and \<open>html/template\<close> are outside the model: their types are opaque and
  their operations are parameters (\<open>externals\<close>).
\<close>

typedecl float64
typedecl template

datatype any =
    Null
  | Bool bool
  | Str string
  | IntV int
  | Float64 float64
  | Number string
  | Slice "any list"
  | MapV "(string \<times> any) list"

type_synonym TemplateVariables = "string \<rightharpoonup> string"

record externals =
  ParseFloat :: "string \<Rightarrow> float64 option"
  float_eq :: "float64 \<Rightarrow> float64 \<Rightarrow> bool"
  template_Parse :: "string \<Rightarrow> template option"
  template_Execute :: "template \<Rightarrow> TemplateVariables \<Rightarrow> string option"

text \<open>
  \<open>ParseFloat\<close> is \<open>strconv.ParseFloat(s, 64)\<close> and \<open>template_Execute\<close> is
  \<open>Template.Execute\<close> into a buffer, both with \<open>None\<close> for an error; \<open>float_eq\<close> is
  \<open>==\<close> on \<open>float64\<close>; \<open>template_Parse\<close> is \<open>template.New(...).Parse\<close>, \<open>None\<close> where
  \<open>template.Must\<close> panics. The environment below, in which there is no parsable float and
  no parsable template, serves to run the model on inputs that have neither.
\<close>

definition plain_externals :: externals where
  "plain_externals =
     \<lparr>ParseFloat = (\<lambda>s. None), float_eq = (\<lambda>a b. False),
      template_Parse = (\<lambda>s. None), template_Execute = (\<lambda>t vars. None)\<rparr>"

datatype panic = Panic string

section \<open>Strings\<close>

text \<open>\<open>strings.HasPrefix\<close>, \<open>strings.HasSuffix\<close> and \<open>strings.Contains\<close>.\<close>

fun HasPrefix :: "string \<Rightarrow> string \<Rightarrow> bool" where
  "HasPrefix s [] = True"
| "HasPrefix [] (p # ps) = False"
| "HasPrefix (c # s) (p # ps) = (c = p \<and> HasPrefix s ps)"

definition HasSuffix :: "string \<Rightarrow> string \<Rightarrow> bool" where
  "HasSuffix s suffix = HasPrefix (rev s) (rev suffix)"

fun Contains :: "string \<Rightarrow> string \<Rightarrow> bool" where
  "Contains [] substr = (substr = [])"
| "Contains (c # s) substr = (HasPrefix (c # s) substr \<or> Contains s substr)"

subsection \<open>\<open>strconv.ParseInt(s, 10, 64)\<close>\<close>

text \<open>
  \<open>json.Number.Int64\<close> is \<open>strconv.ParseInt(string(n), 10, 64)\<close>: an optional sign, then
  at least one decimal digit and nothing else, and the value must fit an \<open>int64\<close>. The
  callers only test \<open>err == nil\<close>, so the syntax and the range error are both \<open>None\<close>.
  \<open>parse_decimal\<close> is the same reading without the range check.
\<close>

definition digit_value :: "char \<Rightarrow> int option" where
  "digit_value c =
     (if (48::int) \<le> of_char c \<and> of_char c \<le> (57::int) then Some (of_char c - 48) else None)"

fun parse_digits :: "int \<Rightarrow> string \<Rightarrow> int option" where
  "parse_digits acc [] = Some acc"
| "parse_digits acc (c # cs) =
     (case digit_value c of None \<Rightarrow> None | Some d \<Rightarrow> parse_digits (10 * acc + d) cs)"

definition ParseUint :: "string \<Rightarrow> int option" where
  "ParseUint s = (if s = [] then None else parse_digits 0 s)"

definition parse_decimal :: "string \<Rightarrow> int option" where
  "parse_decimal s =
     (case s of
        [] \<Rightarrow> None
      | c # s' \<Rightarrow>
          if c = CHR ''+'' then ParseUint s'
          else if c = CHR ''-'' then map_option uminus (ParseUint s')
          else ParseUint s)"

definition Int64 :: "string \<Rightarrow> int option" where
  "Int64 n =
     (case parse_decimal n of
        None \<Rightarrow> None
      | Some v \<Rightarrow> if - (2 ^ 63) \<le> v \<and> v < 2 ^ 63 then Some v else None)"

section \<open>Glob matching: \<open>fnmatch.Match(pattern, s, 0)\<close>\<close>

text \<open>
  The matcher is the library \<open>github.com/danwakefield/fnmatch\<close> that \<open>go.mod\<close> pins; the
  middleware always calls it with \<open>flags = 0\<close>, and that is the instance modelled: no
  case folding, no path or period rules, backslash escapes on. The first argument is the
  pattern. A \<open>char\<close> stands for one rune, which is exact for ASCII text.
\<close>

abbreviation backslash :: char where
  "backslash \<equiv> CHR 0x5C"

text \<open>The tail loop of \<open>rangematch\<close>: skip to the closing bracket.\<close>

fun skip_range :: "string \<Rightarrow> string \<times> bool" where
  "skip_range [] = ([], False)"
| "skip_range [c] = ([], c = CHR '']'')"
| "skip_range (c # d # p) =
     (if c = backslash then skip_range p
      else if c = CHR '']'' then (d # p, True)
      else skip_range (d # p))"

text \<open>
  One item of a bracket expression, after its first character \<open>c\<close> is read: a range
  \<open>c-c2\<close> or the single character \<open>c\<close>. \<open>None\<close> is the early \<open>return false\<close>.
\<close>

fun range_item :: "char \<Rightarrow> char \<Rightarrow> string \<Rightarrow> (string \<times> bool) option" where
  "range_item test c (d # e # p) =
     (if d = CHR ''-'' \<and> e \<noteq> CHR '']'' then
        (if e = backslash then
           (case p of
              [] \<Rightarrow> None
            | c2 # p' \<Rightarrow>
                Some (p', (of_char c :: nat) \<le> of_char test \<and> (of_char test :: nat) \<le> of_char c2))
         else Some (p, (of_char c :: nat) \<le> of_char test \<and> (of_char test :: nat) \<le> of_char e))
      else Some (d # e # p, c = test))"
| "range_item test c p = Some (p, c = test)"

lemma range_item_length:
  "range_item test c p = Some (p', m) \<Longrightarrow> length p' \<le> length p"
  by (induction test c p rule: range_item.induct) (auto split: if_splits list.splits)

function range_loop :: "char \<Rightarrow> string \<Rightarrow> (string \<times> bool) option" where
  "range_loop test p =
     (case p of
        c # d # p' \<Rightarrow>
          if c = CHR '']'' then Some (p, False)
          else
            (case (if c = backslash then (case p' of [] \<Rightarrow> None | _ \<Rightarrow> Some (d, p'))
                   else Some (c, d # p')) of
               None \<Rightarrow> None
             | Some (c1, p1) \<Rightarrow>
                 (case range_item test c1 p1 of
                    None \<Rightarrow> None
                  | Some (p2, matched) \<Rightarrow>
                      if matched then Some (p2, True) else range_loop test p2))
      | _ \<Rightarrow> Some (p, False))"
  by pat_completeness auto
termination
  by (relation "measure (\<lambda>(test, p). length p)")
     (auto split: if_splits list.splits dest: range_item_length)

declare range_loop.simps [simp del]

definition rangematch :: "string \<Rightarrow> char \<Rightarrow> string \<times> bool" where
  "rangematch pattern test =
     (case pattern of
        [] \<Rightarrow> ([], False)
      | c # rest \<Rightarrow>
          (let negate = (c = CHR ''^'' \<or> c = CHR ''!'');
               p0 = (if negate then rest else pattern)
           in case range_loop test p0 of
                None \<Rightarrow> (p0, False)
              | Some (p1, matched) \<Rightarrow>
                  (case skip_range p1 of (p2, ok) \<Rightarrow> (p2, ok \<and> matched \<noteq> negate))))"

text \<open>The values of \<open>test\<close> in the loop after a star: the non-empty suffixes of \<open>s\<close>.\<close>

fun star_tests :: "string \<Rightarrow> string list" where
  "star_tests [] = []"
| "star_tests (c # s) = (c # s) # star_tests s"

lemma skip_range_length: "length (fst (skip_range p)) \<le> length p"
  by (induction p rule: skip_range.induct) auto

lemma range_loop_length:
  "range_loop test p = Some (p', m) \<Longrightarrow> length p' \<le> length p"
proof (induction test p arbitrary: p' m rule: range_loop.induct)
  case (1 test p)
  note unfold = range_loop.simps [of test p]
  show ?case
  proof (cases p)
    case Nil
    with "1.prems" unfold show ?thesis by simp
  next
    case (Cons c q)
    show ?thesis
    proof (cases q)
      case Nil
      with Cons "1.prems" unfold show ?thesis by simp
    next
      case (Cons d r)
      note p = \<open>p = c # q\<close> \<open>q = d # r\<close>
      show ?thesis
      proof (cases "c = CHR '']''")
        case True
        with p "1.prems" unfold show ?thesis by simp
      next
        case False
        let ?e = "if c = backslash then (case r of [] \<Rightarrow> None | _ \<Rightarrow> Some (d, r))
                  else Some (c, d # r)"
        from p False "1.prems" unfold obtain c1 p1 where e: "?e = Some (c1, p1)"
          by (cases ?e) (auto simp del: range_item.simps)
        then have l1: "length p1 < length p"
          using p by (auto split: if_splits list.splits)
        from p False "1.prems" unfold e obtain p2 matched
          where it: "range_item test c1 p1 = Some (p2, matched)"
          by (cases "range_item test c1 p1") (auto simp del: range_item.simps)
        then have l2: "length p2 \<le> length p1" by (rule range_item_length)
        show ?thesis
        proof (cases matched)
          case True
          with p False "1.prems" unfold e it have "p' = p2"
            by (simp del: range_item.simps)
          with l1 l2 show ?thesis by simp
        next
          case nm: False
          with p \<open>c \<noteq> CHR '']''\<close> "1.prems" unfold e it
          have "range_loop test p2 = Some (p', m)"
            by (simp del: range_item.simps)
          with "1.IH" [OF p(1) p(2) \<open>c \<noteq> CHR '']''\<close> e refl it refl nm]
          have "length p' \<le> length p2" by simp
          with l1 l2 show ?thesis by simp
        qed
      qed
    qed
  qed
qed

lemma range_rest_length:
  "length (fst (case range_loop test p0 of
                  None \<Rightarrow> (p0, False)
                | Some (p1, matched) \<Rightarrow>
                    (case skip_range p1 of (p2, ok) \<Rightarrow> (p2, f ok matched)))) \<le> length p0"
proof (cases "range_loop test p0")
  case None
  then show ?thesis by simp
next
  case (Some r)
  obtain p1 matched where r: "r = (p1, matched)" by (cases r)
  with Some have "length p1 \<le> length p0" by (auto dest: range_loop_length)
  moreover have "length (fst (skip_range p1)) \<le> length p1" by (rule skip_range_length)
  ultimately have "length (fst (skip_range p1)) \<le> length p0" by linarith
  with Some r show ?thesis by (cases "skip_range p1") simp
qed

lemma rangematch_length: "length (fst (rangematch pattern test)) \<le> length pattern"
proof (cases pattern)
  case Nil
  then show ?thesis by (simp add: rangematch_def)
next
  case (Cons c rest)
  show ?thesis
  proof (cases "c = CHR ''^'' \<or> c = CHR ''!''")
    case True
    have "length (fst (rangematch pattern test)) \<le> length rest"
      unfolding rangematch_def Cons list.case Let_def if_P [OF True]
      by (rule range_rest_length)
    with Cons show ?thesis by simp
  next
    case False
    show ?thesis
      unfolding rangematch_def Cons list.case Let_def if_not_P [OF False]
      by (rule range_rest_length)
  qed
qed

text \<open>
  \<open>Match\<close> with \<open>flags = 0\<close>. A star first swallows the stars that follow it; a pattern
  that ends there matches anything; otherwise the rest of the pattern is tried on every
  non-empty suffix of the string.
\<close>

function Match :: "string \<Rightarrow> string \<Rightarrow> bool" where
  "Match [] s = (s = [])"
| "Match (c # pattern) s =
     (if c = CHR ''?'' then
        (case s of [] \<Rightarrow> False | sc # s' \<Rightarrow> Match pattern s')
      else if c = CHR ''*'' then
        (let pattern' = dropWhile (\<lambda>x. x = CHR ''*'') pattern
         in if pattern' = [] then True
            else list_ex (\<lambda>test. Match pattern' test) (star_tests s))
      else if c = CHR ''['' then
        (case s of
           [] \<Rightarrow> False
         | sc # s' \<Rightarrow>
             (case rangematch pattern sc of (pattern', ok) \<Rightarrow> ok \<and> Match pattern' s'))
      else if c = backslash then
        (case pattern of
           [] \<Rightarrow> (case s of [] \<Rightarrow> False | sc # s' \<Rightarrow> sc = c \<and> Match [] s')
         | c' # pattern' \<Rightarrow>
             (case s of [] \<Rightarrow> False | sc # s' \<Rightarrow> sc = c' \<and> Match pattern' s'))
      else (case s of [] \<Rightarrow> False | sc # s' \<Rightarrow> sc = c \<and> Match pattern s'))"
  by pat_completeness auto
termination
  apply (relation "measure (\<lambda>(pattern, s). length pattern)")
       apply simp_all
   apply (metis le_imp_less_Suc length_dropWhile_le)
  apply (metis fst_conv le_imp_less_Suc rangematch_length)
  done

section \<open>The requirement engine\<close>

subsection \<open>\<open>reflect.DeepEqual\<close> on values\<close>

text \<open>
  Two values are deeply equal when they have the same dynamic type and equal contents:
  slices element by element, maps when they have as many entries and every key of the
  first is a key of the second with a deeply equal value.
\<close>

fun DeepEqual :: "(float64 \<Rightarrow> float64 \<Rightarrow> bool) \<Rightarrow> any \<Rightarrow> any \<Rightarrow> bool"
  and DeepEqual_slice :: "(float64 \<Rightarrow> float64 \<Rightarrow> bool) \<Rightarrow> any list \<Rightarrow> any list \<Rightarrow> bool"
  and DeepEqual_map ::
    "(float64 \<Rightarrow> float64 \<Rightarrow> bool) \<Rightarrow> (string \<times> any) list \<Rightarrow> (string \<times> any) list \<Rightarrow> bool"
where
  "DeepEqual feq Null y = (y = Null)"
| "DeepEqual feq (Bool a) y = (y = Bool a)"
| "DeepEqual feq (Str a) y = (y = Str a)"
| "DeepEqual feq (IntV a) y = (y = IntV a)"
| "DeepEqual feq (Number a) y = (y = Number a)"
| "DeepEqual feq (Float64 a) y = (case y of Float64 b \<Rightarrow> feq a b | _ \<Rightarrow> False)"
| "DeepEqual feq (Slice xs) y = (case y of Slice ys \<Rightarrow> DeepEqual_slice feq xs ys | _ \<Rightarrow> False)"
| "DeepEqual feq (MapV xs) y =
     (case y of MapV ys \<Rightarrow> length xs = length ys \<and> DeepEqual_map feq xs ys | _ \<Rightarrow> False)"
| "DeepEqual_slice feq [] ys = (ys = [])"
| "DeepEqual_slice feq (x # xs) ys =
     (case ys of [] \<Rightarrow> False | y # ys' \<Rightarrow> DeepEqual feq x y \<and> DeepEqual_slice feq xs ys')"
| "DeepEqual_map feq [] ys = True"
| "DeepEqual_map feq ((k, v) # xs) ys =
     (case map_of ys k of
        None \<Rightarrow> False
      | Some w \<Rightarrow> DeepEqual feq v w \<and> DeepEqual_map feq xs ys)"

subsection \<open>Requirements\<close>

text \<open>
  A \<open>Requirement\<close> is a \<open>ValueRequirement{value, nested}\<close> or a
  \<open>TemplateRequirement{template, nested}\<close>; \<open>ClaimRequirements\<close> is the list of
  requirements of one claim and \<open>Requirements\<close> maps a claim name to it.
\<close>

datatype Requirement =
    ValueRequirement any any
  | TemplateRequirement template any

type_synonym ClaimRequirements = "Requirement list"
type_synonym Requirements = "(string \<times> ClaimRequirements) list"
type_synonym MapClaims = "(string \<times> any) list"

text \<open>
  \<open>ValidateNested\<close>. The two type switches differ on \<open>nil\<close>: a \<open>nil\<close> nested
  requirement returns \<open>true\<close> at once, while a \<open>nil\<close> supplied value matches neither
  \<open>case []any\<close> nor \<open>case any\<close> and leaves \<open>supplied\<close> empty.
\<close>

fun required_values :: "any \<Rightarrow> any list" where
  "required_values (Slice nested) = nested"
| "required_values nested = [nested]"

fun supplied_values :: "any \<Rightarrow> any list" where
  "supplied_values (Slice v) = v"
| "supplied_values Null = []"
| "supplied_values v = [v]"

definition ValidateNested :: "externals \<Rightarrow> any \<Rightarrow> any \<Rightarrow> bool" where
  "ValidateNested ext nested v =
     (if nested = Null then True
      else list_ex (\<lambda>required.
             list_ex (\<lambda>supplied. DeepEqual (float_eq ext) required supplied)
               (supplied_values v))
           (required_values nested))"

text \<open>
  \<open>ValueRequirement.Validate\<close>, with the requirement's two fields as arguments. The
  \<open>variables\<close> argument of the source is passed along and never read here, so it is
  left out. The two \<open>range\<close> loops are \<open>Validate_slice\<close> and \<open>Validate_map\<close>; when a loop
  finds nothing, control reaches the final \<open>reflect.DeepEqual\<close>.
\<close>

fun ValueRequirement_Validate :: "externals \<Rightarrow> any \<Rightarrow> any \<Rightarrow> any \<Rightarrow> bool"
  and Validate_slice :: "externals \<Rightarrow> any \<Rightarrow> any \<Rightarrow> any list \<Rightarrow> bool"
  and Validate_map :: "externals \<Rightarrow> any \<Rightarrow> any \<Rightarrow> (string \<times> any) list \<Rightarrow> bool"
where
  "ValueRequirement_Validate ext rv rn (Slice vs) =
     (if Validate_slice ext rv rn vs then True
      else DeepEqual (float_eq ext) (Slice vs) rv)"
| "ValueRequirement_Validate ext rv rn (MapV kvs) =
     (if Validate_map ext rv rn kvs then True
      else DeepEqual (float_eq ext) (MapV kvs) rv)"
| "ValueRequirement_Validate ext rv rn (Str v) =
     (case rv of
        Str required \<Rightarrow> Match v required \<or> v = ''*.'' @ required
      | _ \<Rightarrow> False)"
| "ValueRequirement_Validate ext rv rn (Number n) =
     (case rv of
        IntV i \<Rightarrow> (case Int64 n of None \<Rightarrow> False | Some converted \<Rightarrow> converted = i)
      | Float64 f \<Rightarrow>
          (case ParseFloat ext n of None \<Rightarrow> False | Some converted \<Rightarrow> float_eq ext converted f)
      | _ \<Rightarrow> False)"
| "ValueRequirement_Validate ext rv rn v = DeepEqual (float_eq ext) v rv"
| "Validate_slice ext rv rn [] = False"
| "Validate_slice ext rv rn (v # vs) =
     (if ValueRequirement_Validate ext rv rn v then True else Validate_slice ext rv rn vs)"
| "Validate_map ext rv rn [] = False"
| "Validate_map ext rv rn ((k, nested) # kvs) =
     (if ValueRequirement_Validate ext rv rn (Str k) \<and> ValidateNested ext rn nested then True
      else Validate_map ext rv rn kvs)"

text \<open>\<open>TemplateRequirement.Validate\<close> and the dispatch on the interface.\<close>

fun Validate :: "externals \<Rightarrow> Requirement \<Rightarrow> any \<Rightarrow> TemplateVariables \<Rightarrow> bool" where
  "Validate ext (ValueRequirement rv rn) v variables = ValueRequirement_Validate ext rv rn v"
| "Validate ext (TemplateRequirement t rn) v variables =
     (case template_Execute ext t variables of
        None \<Rightarrow> False
      | Some buffer \<Rightarrow> ValueRequirement_Validate ext (Str buffer) rn v)"

text \<open>
  \<open>NewRequirement\<close>: a string with both interpolation markers becomes a template;
  \<open>template.Must\<close> panics when it does not parse.
\<close>

definition NewRequirement :: "externals \<Rightarrow> any \<Rightarrow> any \<Rightarrow> panic + Requirement" where
  "NewRequirement ext v nested =
     (case v of
        Str text \<Rightarrow>
          if Contains text ''{{'' \<and> Contains text ''}}'' then
            (case template_Parse ext text of
               None \<Rightarrow> Inl (Panic ''template: parse error'')
             | Some t \<Rightarrow> Inr (TemplateRequirement t nested))
          else Inr (ValueRequirement v nested)
      | _ \<Rightarrow> Inr (ValueRequirement v nested))"

fun collect :: "(panic + 'a) list \<Rightarrow> panic + 'a list" where
  "collect [] = Inr []"
| "collect (x # xs) =
     (case x of
        Inl e \<Rightarrow> Inl e
      | Inr r \<Rightarrow> (case collect xs of Inl e \<Rightarrow> Inl e | Inr rs \<Rightarrow> Inr (r # rs)))"

text \<open>
  \<open>convertRequire\<close>: one entry of the configuration per claim name. A list gives one
  requirement per element, a map one per key with the key's value as nested requirement,
  anything else a single requirement.
\<close>

definition convertEntry :: "externals \<Rightarrow> any \<Rightarrow> panic + ClaimRequirements" where
  "convertEntry ext v =
     (case v of
        Slice vs \<Rightarrow> collect (map (\<lambda>x. NewRequirement ext x Null) vs)
      | MapV kvs \<Rightarrow> collect (map (\<lambda>(k, x). NewRequirement ext (Str k) x) kvs)
      | _ \<Rightarrow> collect [NewRequirement ext v Null])"

fun convertRequire :: "externals \<Rightarrow> (string \<times> any) list \<Rightarrow> panic + Requirements" where
  "convertRequire ext [] = Inr []"
| "convertRequire ext ((key, v) # require) =
     (case convertEntry ext v of
        Inl e \<Rightarrow> Inl e
      | Inr claimRequirements \<Rightarrow>
          (case convertRequire ext require of
             Inl e \<Rightarrow> Inl e
           | Inr requirements \<Rightarrow> Inr ((key, claimRequirements) # requirements)))"

text \<open>\<open>ClaimRequirements.validate\<close>: any requirement may satisfy the claim.\<close>

fun ClaimRequirements_validate ::
  "externals \<Rightarrow> ClaimRequirements \<Rightarrow> any \<Rightarrow> TemplateVariables \<Rightarrow> bool" where
  "ClaimRequirements_validate ext [] v variables = False"
| "ClaimRequirements_validate ext (requirement # requirements) v variables =
     (if Validate ext requirement v variables then True
      else ClaimRequirements_validate ext requirements v variables)"

text \<open>
  \<open>validateClaims\<close> over \<open>plugin.require\<close>: the first claim (in the iteration order of
  the map, here the order of the list) that is absent or not valid gives the error;
  \<open>None\<close> is \<open>nil\<close>.
\<close>

fun validateClaims ::
  "externals \<Rightarrow> Requirements \<Rightarrow> MapClaims \<Rightarrow> TemplateVariables \<Rightarrow> string option" where
  "validateClaims ext [] claims variables = None"
| "validateClaims ext ((claim, requirements) # require) claims variables =
     (case map_of claims claim of
        None \<Rightarrow> Some (''claim is not present: '' @ claim)
      | Some v \<Rightarrow>
          if \<not> ClaimRequirements_validate ext requirements v variables
          then Some (''claim is not valid: '' @ claim)
          else validateClaims ext require claims variables)"

section \<open>Claims about the requirement engine\<close>

text \<open>
  C1, as stated, at the second example: the requirement \<open>*.example.com\<close> is the
  string and the claim \<open>test.example.com\<close> the pattern of \<open>fnmatch.Match(value,
  required, 0)\<close>, so the star is an ordinary character of the string and the claim is
  rejected.
\<close>

theorem C1_wildcard_requirement_counterexample:
  "\<not> ValueRequirement_Validate plain_externals (Str ''*.example.com'') Null
       (Str ''test.example.com'')"
  by simp

text \<open>
  C1, amended: for a string claim value checked against a string requirement,
  \<open>ValueRequirement.Validate\<close> succeeds exactly when the claim value, taken as the glob
  pattern, matches the requirement, or the claim value is the literal string \<open>*.\<close>
  followed by the requirement. In particular the requirement \<open>example.com\<close> accepts the
  claim \<open>*.example.com\<close>, the requirement \<open>test.example.com\<close> accepts the claim
  \<open>*.example.com\<close>, and the requirement \<open>test.example.com\<close> rejects the claim
  \<open>*.company.com\<close>.
\<close>

theorem C1_string_requirement:
  "ValueRequirement_Validate ext (Str required) nested (Str v)
     = (Match v required \<or> v = ''*.'' @ required)
   \<and> ValueRequirement_Validate ext (Str ''example.com'') nested (Str ''*.example.com'')
   \<and> ValueRequirement_Validate ext (Str ''test.example.com'') nested (Str ''*.example.com'')
   \<and> \<not> ValueRequirement_Validate ext (Str ''test.example.com'') nested (Str ''*.company.com'')"
proof -
  have general: "ValueRequirement_Validate ext (Str required) nested (Str v)
     = (Match v required \<or> v = ''*.'' @ required)"
    by simp
  have bare: "ValueRequirement_Validate ext (Str ''example.com'') nested (Str ''*.example.com'')"
    by simp
  have sub: "ValueRequirement_Validate ext (Str ''test.example.com'') nested (Str ''*.example.com'')"
    by simp
  have other:
    "\<not> ValueRequirement_Validate ext (Str ''test.example.com'') nested (Str ''*.company.com'')"
    by simp
  from general bare sub other show ?thesis by blast
qed

text \<open>
  C2: the configuration \<open>require: {aud: test, roles: {"$and": ["admin", "other"]}}\<close>
  of the repository's test "and requirement with valid claims", on that test's claims.
  \<open>convertRequire\<close> has no case for the key \<open>$and\<close>: it builds the literal
  requirement \<open>ValueRequirement{value: "$and", nested: ["admin", "other"]}\<close>, which no
  element of \<open>roles = ["admin", "other"]\<close> matches, and \<open>validateClaims\<close> rejects the
  token that the test expects to pass.
\<close>

theorem C2_and_key_is_literal:
  "convertRequire plain_externals
     [(''aud'', Str ''test''),
      (''roles'', MapV [(''$and'', Slice [Str ''admin'', Str ''other''])])]
     = Inr [(''aud'', [ValueRequirement (Str ''test'') Null]),
            (''roles'', [ValueRequirement (Str ''$and'') (Slice [Str ''admin'', Str ''other''])])]
   \<and> validateClaims plain_externals
       [(''aud'', [ValueRequirement (Str ''test'') Null]),
        (''roles'', [ValueRequirement (Str ''$and'') (Slice [Str ''admin'', Str ''other''])])]
       [(''aud'', Str ''test''), (''iss'', Str ''https://auth.example.com''),
        (''roles'', Slice [Str ''admin'', Str ''other''])]
       Map.empty
     = Some ''claim is not valid: roles''"
proof -
  have build: "convertRequire plain_externals
     [(''aud'', Str ''test''),
      (''roles'', MapV [(''$and'', Slice [Str ''admin'', Str ''other''])])]
     = Inr [(''aud'', [ValueRequirement (Str ''test'') Null]),
            (''roles'', [ValueRequirement (Str ''$and'') (Slice [Str ''admin'', Str ''other''])])]"
    by (simp add: convertEntry_def NewRequirement_def)
  have run: "validateClaims plain_externals
       [(''aud'', [ValueRequirement (Str ''test'') Null]),
        (''roles'', [ValueRequirement (Str ''$and'') (Slice [Str ''admin'', Str ''other''])])]
       [(''aud'', Str ''test''), (''iss'', Str ''https://auth.example.com''),
        (''roles'', Slice [Str ''admin'', Str ''other''])]
       Map.empty
     = Some ''claim is not valid: roles''"
    by simp
  from build run show ?thesis by (rule conjI)
qed

lemma ClaimRequirements_validate_iff:
  "ClaimRequirements_validate ext requirements v variables
     = (\<exists>requirement \<in> set requirements. Validate ext requirement v variables)"
  by (induction requirements) auto

lemma validateClaims_None_iff:
  "(validateClaims ext require claims variables = None)
     = (\<forall>(claim, requirements) \<in> set require.
          \<exists>v. map_of claims claim = Some v
             \<and> ClaimRequirements_validate ext requirements v variables)"
  by (induction require) (auto split: option.splits if_splits)

text \<open>
  C5: \<open>validateClaims\<close> succeeds (returns \<open>nil\<close>) iff every configured claim name is
  present in the token's claims and its \<open>ClaimRequirements\<close> list evaluates true; a
  \<open>ClaimRequirements\<close> list evaluates true iff at least one of its requirements
  validates; a configured claim that is absent makes the call fail, and it fails with
  "claim is not present" as soon as the loop reaches that claim.
\<close>

theorem C5_validateClaims_and_or:
  "((validateClaims ext require claims variables = None)
      = (\<forall>(claim, requirements) \<in> set require.
           \<exists>v. map_of claims claim = Some v
              \<and> ClaimRequirements_validate ext requirements v variables))
   \<and> (ClaimRequirements_validate ext requirements v variables
      = (\<exists>requirement \<in> set requirements. Validate ext requirement v variables))
   \<and> ((\<exists>(claim, requirements) \<in> set require. map_of claims claim = None)
      \<longrightarrow> validateClaims ext require claims variables \<noteq> None)
   \<and> (map_of claims claim = None
      \<longrightarrow> validateClaims ext ((claim, requirements) # require) claims variables
          = Some (''claim is not present: '' @ claim))"
proof -
  have absent: "(\<exists>(claim, requirements) \<in> set require. map_of claims claim = None)
      \<longrightarrow> validateClaims ext require claims variables \<noteq> None"
    unfolding validateClaims_None_iff by fastforce
  have first: "map_of claims claim = None
      \<longrightarrow> validateClaims ext ((claim, requirements) # require) claims variables
          = Some (''claim is not present: '' @ claim)"
    by simp
  from validateClaims_None_iff [of ext require claims variables]
    ClaimRequirements_validate_iff [of ext requirements v variables] absent first
  show ?thesis by blast
qed

theorem C5_validateClaims_and_or_witness:
  "validateClaims plain_externals
     [(''aud'', [ValueRequirement (Str ''other'') Null, ValueRequirement (Str ''test'') Null])]
     [(''aud'', Str ''test'')] Map.empty = None
   \<and> ClaimRequirements_validate plain_externals
       [ValueRequirement (Str ''other'') Null, ValueRequirement (Str ''test'') Null]
       (Str ''test'') Map.empty
   \<and> validateClaims plain_externals
       [(''aud'', [ValueRequirement (Str ''test'') Null]),
        (''roles'', [ValueRequirement (Str ''admin'') Null])]
       [(''aud'', Str ''test'')] Map.empty \<noteq> None
   \<and> validateClaims plain_externals
       [(''roles'', [ValueRequirement (Str ''admin'') Null]),
        (''aud'', [ValueRequirement (Str ''test'') Null])]
       [(''aud'', Str ''test'')] Map.empty = Some ''claim is not present: roles''"
proof -
  note a = C5_validateClaims_and_or
    [where ext = plain_externals
      and require =
        "[(''aud'', [ValueRequirement (Str ''other'') Null, ValueRequirement (Str ''test'') Null])]"
      and claims = "[(''aud'', Str ''test'')]" and variables = Map.empty
      and requirements =
        "[ValueRequirement (Str ''other'') Null, ValueRequirement (Str ''test'') Null]"
      and v = "Str ''test''" and claim = "''roles''"]
  note b = C5_validateClaims_and_or
    [where ext = plain_externals
      and require =
        "[(''aud'', [ValueRequirement (Str ''test'') Null]),
          (''roles'', [ValueRequirement (Str ''admin'') Null])]"
      and claims = "[(''aud'', Str ''test'')]" and variables = Map.empty
      and requirements = "[ValueRequirement (Str ''admin'') Null]"
      and v = Null and claim = "''roles''"]
  note c = C5_validateClaims_and_or
    [where ext = plain_externals
      and require = "[(''aud'', [ValueRequirement (Str ''test'') Null])]"
      and claims = "[(''aud'', Str ''test'')]" and variables = Map.empty
      and requirements = "[ValueRequirement (Str ''admin'') Null]"
      and v = Null and claim = "''roles''"]
  have 1: "validateClaims plain_externals
     [(''aud'', [ValueRequirement (Str ''other'') Null, ValueRequirement (Str ''test'') Null])]
     [(''aud'', Str ''test'')] Map.empty = None"
    using a by simp
  have 2: "ClaimRequirements_validate plain_externals
       [ValueRequirement (Str ''other'') Null, ValueRequirement (Str ''test'') Null]
       (Str ''test'') Map.empty"
    using a by simp
  have 3: "validateClaims plain_externals
       [(''aud'', [ValueRequirement (Str ''test'') Null]),
        (''roles'', [ValueRequirement (Str ''admin'') Null])]
       [(''aud'', Str ''test'')] Map.empty \<noteq> None"
    using b by simp
  have 4: "validateClaims plain_externals
       [(''roles'', [ValueRequirement (Str ''admin'') Null]),
        (''aud'', [ValueRequirement (Str ''test'') Null])]
       [(''aud'', Str ''test'')] Map.empty = Some ''claim is not present: roles''"
    using c by simp
  from 1 2 3 4 show ?thesis by blast
qed

text \<open>
  C6, as stated, at the nested requirement \<open>[null]\<close> and the supplied value \<open>null\<close>:
  normalised "the same way" as the requirement, the supplied value would be the
  one-element list \<open>[null]\<close>, whose element is deeply equal to the required \<open>null\<close>;
  \<open>ValidateNested\<close> returns \<open>false\<close>, because a \<open>nil\<close> interface value matches neither
  case of the second type switch and \<open>supplied\<close> stays empty.
\<close>

theorem C6_null_supplied_counterexample:
  "\<not> ValidateNested plain_externals (Slice [Null]) Null
   \<and> required_values (Slice [Null]) = [Null]
   \<and> required_values Null = [Null]
   \<and> DeepEqual (float_eq plain_externals) Null Null"
  by (simp add: ValidateNested_def)

text \<open>
  C6, amended: \<open>ValidateNested\<close> normalises the configured nested requirement into a
  list of acceptable values (a list stays a list, any other value becomes a one-element
  list) and the supplied value into a list of supplied values (a list stays a list,
  \<open>null\<close> becomes the empty list, any other value becomes a one-element list), then
  succeeds iff some required value is \<open>reflect.DeepEqual\<close> to some supplied value; a
  \<open>nil\<close> nested requirement always succeeds regardless of the supplied value.
\<close>

theorem C6_ValidateNested_cross_product:
  "(ValidateNested ext nested v
      = (nested = Null
         \<or> (\<exists>required \<in> set (required_values nested).
              \<exists>supplied \<in> set (supplied_values v).
                DeepEqual (float_eq ext) required supplied)))
   \<and> ValidateNested ext Null v
   \<and> required_values (Slice rs) = rs
   \<and> ((\<forall>xs. nested \<noteq> Slice xs) \<longrightarrow> required_values nested = [nested])
   \<and> supplied_values (Slice vs) = vs
   \<and> supplied_values Null = []
   \<and> (v \<noteq> Null \<and> (\<forall>xs. v \<noteq> Slice xs) \<longrightarrow> supplied_values v = [v])"
proof -
  have main: "ValidateNested ext nested v
      = (nested = Null
         \<or> (\<exists>required \<in> set (required_values nested).
              \<exists>supplied \<in> set (supplied_values v).
                DeepEqual (float_eq ext) required supplied))"
    by (simp add: ValidateNested_def list_ex_iff)
  have nil: "ValidateNested ext Null v"
    by (simp add: ValidateNested_def)
  have req: "(\<forall>xs. nested \<noteq> Slice xs) \<longrightarrow> required_values nested = [nested]"
    by (cases nested) simp_all
  have sup: "v \<noteq> Null \<and> (\<forall>xs. v \<noteq> Slice xs) \<longrightarrow> supplied_values v = [v]"
    by (cases v) simp_all
  from main nil req sup show ?thesis by simp
qed

theorem C6_ValidateNested_cross_product_witness:
  "ValidateNested plain_externals (Slice [Str ''user'', Str ''admin''])
     (Slice [Str ''other'', Str ''admin''])
   \<and> required_values (Str ''admin'') = [Str ''admin'']
   \<and> supplied_values (Str ''guest'') = [Str ''guest'']
   \<and> \<not> ValidateNested plain_externals (Slice [Str ''user'', Str ''admin'']) (Str ''guest'')"
proof -
  note a = C6_ValidateNested_cross_product
    [where ext = plain_externals and nested = "Slice [Str ''user'', Str ''admin'']"
      and v = "Slice [Str ''other'', Str ''admin'']"]
  note b = C6_ValidateNested_cross_product
    [where ext = plain_externals and nested = "Str ''admin''" and v = "Str ''guest''"]
  note c = C6_ValidateNested_cross_product
    [where ext = plain_externals and nested = "Slice [Str ''user'', Str ''admin'']"
      and v = "Str ''guest''"]
  have 1: "ValidateNested plain_externals (Slice [Str ''user'', Str ''admin''])
     (Slice [Str ''other'', Str ''admin''])"
    using a by simp
  have 2: "required_values (Str ''admin'') = [Str ''admin'']
     \<and> supplied_values (Str ''guest'') = [Str ''guest'']"
    using b by simp
  have 3: "\<not> ValidateNested plain_externals (Slice [Str ''user'', Str ''admin''])
     (Str ''guest'')"
    using c by simp
  from 1 2 3 show ?thesis by blast
qed

section \<open>The plugin and its key cache\<close>

text \<open>
  The fields of \<open>JWTPlugin\<close> that the functions below read or write. A key is opaque
  (\<open>'k\<close>); \<open>secret\<close> is \<open>None\<close> for \<open>nil\<close>. The maps \<open>keys\<close> and \<open>issuerKeys\<close> are
  association lists, and \<open>issuerKeys\<close> is keyed by the JWKS URL a key set came from
  (\<open>internal\<close> for the configured secrets). The lock is not modelled: every function
  is seen as running alone.
\<close>

record 'k JWTPlugin =
  secret :: "'k option"
  issuers :: "string list"
  require :: Requirements
  keys :: "(string \<times> 'k) list"
  issuerKeys :: "(string \<times> (string \<times> 'k) list) list"
  optional :: bool
  cookieName :: string
  headerName :: string
  parameterName :: string
  forwardToken :: bool
  freshness :: int

text \<open>
  The two HTTP fetches are parameters: \<open>FetchOpenIDConfiguration\<close> gives the
  \<open>jwks_uri\<close> of the discovery document and \<open>FetchJWKS\<close> the decoded key set, each
  with \<open>Inl\<close> for its error. The choice of the HTTP client has no part in the result.
\<close>

record 'k network =
  FetchOpenIDConfiguration :: "string \<Rightarrow> string + string"
  FetchJWKS :: "string \<Rightarrow> string + (string \<times> 'k) list"

definition canonicalizeDomain :: "string \<Rightarrow> string" where
  "canonicalizeDomain domain = (if \<not> HasSuffix domain ''/'' then domain @ ''/'' else domain)"

definition isValidIssuer :: "'k JWTPlugin \<Rightarrow> string \<Rightarrow> bool" where
  "isValidIssuer plugin issuer = list_ex (\<lambda>allowed. Match allowed issuer) (issuers plugin)"

definition isIssuedKey :: "'k JWTPlugin \<Rightarrow> string \<Rightarrow> bool" where
  "isIssuedKey plugin keyID =
     list_ex (\<lambda>(issuer, issuerKeys). map_of issuerKeys keyID \<noteq> None) (issuerKeys plugin)"

definition purgeKeys :: "'k JWTPlugin \<Rightarrow> 'k JWTPlugin" where
  "purgeKeys plugin =
     plugin\<lparr>keys := filter (\<lambda>(keyID, key). isIssuedKey plugin keyID) (keys plugin)\<rparr>"

text \<open>The JWKS URL that \<open>fetchKeys\<close> settles on for an issuer.\<close>

definition jwks_url :: "'k network \<Rightarrow> string \<Rightarrow> string" where
  "jwks_url net issuer =
     (case FetchOpenIDConfiguration net (issuer @ ''.well-known/openid-configuration'') of
        Inl err \<Rightarrow> issuer @ ''.well-known/jwks.json''
      | Inr JWKSURI \<Rightarrow> JWKSURI)"

text \<open>
  \<open>fetchKeys\<close> returns its error (\<open>None\<close> for \<open>nil\<close>) and the plugin after the call:
  a failed fetch changes nothing; a successful one stores every fetched key, replaces
  the key set of the URL and purges.
\<close>

definition fetchKeys ::
  "'k network \<Rightarrow> 'k JWTPlugin \<Rightarrow> string \<Rightarrow> string option \<times> 'k JWTPlugin" where
  "fetchKeys net plugin issuer =
     (let url = jwks_url net issuer
      in case FetchJWKS net url of
           Inl err \<Rightarrow> (Some err, plugin)
         | Inr jwks \<Rightarrow>
             (None,
              purgeKeys
                (plugin\<lparr>keys := fold (\<lambda>(keyID, key). AList.update keyID key) jwks (keys plugin),
                        issuerKeys := AList.update url jwks (issuerKeys plugin)\<rparr>)))"

subsection \<open>\<open>getKey\<close>\<close>

text \<open>
  A token as the key function sees it: the decoded header and claims. The calls that
  \<open>getKey\<close> makes on the cache and on the network are recorded, in order, in a trace.
\<close>

record Token =
  Header :: "(string \<times> any) list"
  Claims :: MapClaims

datatype event = Lookup string | Fetch string

datatype 'k loop_exit = Returned 'k | Broke "string option"

text \<open>
  The loop \<open>for looped := false; ; looped = true\<close>. Each round looks the key up (the
  type assertion \<open>kid.(string)\<close> panics on another type); a hit returns. The second
  round breaks on a miss. The first round, on a miss, needs a string \<open>iss\<close> claim and
  breaks without one; with one, it fetches the keys of an allowed issuer, keeping the
  error of the fetch in \<open>err\<close>, or sets \<open>err\<close> for an issuer that is not allowed, and goes
  round again. The variable \<open>refreshed\<close> only feeds a log line and is left out.
\<close>

function getKey_loop ::
  "'k network \<Rightarrow> Token \<Rightarrow> any \<Rightarrow> bool \<Rightarrow> string option \<Rightarrow> 'k JWTPlugin \<Rightarrow> event list
     \<Rightarrow> panic + ('k loop_exit \<times> 'k JWTPlugin \<times> event list)" where
  "getKey_loop net token kid looped err plugin trace =
     (case kid of
        Str k \<Rightarrow>
          (case map_of (keys plugin) k of
             Some key \<Rightarrow> Inr (Returned key, plugin, trace @ [Lookup k])
           | None \<Rightarrow>
               if looped then Inr (Broke err, plugin, trace @ [Lookup k])
               else
                 (case map_of (Claims token) ''iss'' of
                    Some (Str iss) \<Rightarrow>
                      (let issuer = canonicalizeDomain iss
                       in if isValidIssuer plugin issuer then
                            (case fetchKeys net plugin issuer of
                               (err', plugin') \<Rightarrow>
                                 getKey_loop net token kid True err' plugin'
                                   (trace @ [Lookup k, Fetch issuer]))
                          else
                            getKey_loop net token kid True
                              (Some (''issuer '' @ issuer @ '' is not valid'')) plugin
                              (trace @ [Lookup k]))
                  | _ \<Rightarrow> Inr (Broke err, plugin, trace @ [Lookup k])))
      | _ \<Rightarrow> Inl (Panic ''interface conversion: interface {} is not string''))"
  by pat_completeness auto
termination
  by (relation "measure (\<lambda>(net, token, kid, looped, err, plugin, trace). if looped then 0 else 1)")
     auto

declare getKey_loop.simps [simp del]

text \<open>
  \<open>getKey\<close> returns Go's pair \<open>(key, err)\<close>, the plugin after the call and the trace.
  After the loop it falls back to the fixed secret, or returns \<open>nil\<close> with \<open>err\<close>.
\<close>

definition getKey ::
  "'k network \<Rightarrow> 'k JWTPlugin \<Rightarrow> Token
     \<Rightarrow> panic + (('k option \<times> string option) \<times> 'k JWTPlugin \<times> event list)" where
  "getKey net plugin token =
     (let err = Some ''no secret configured'';
          looked =
            (if issuers plugin \<noteq> [] \<or> keys plugin \<noteq> [] then
               (case map_of (Header token) ''kid'' of
                  Some kid \<Rightarrow> getKey_loop net token kid False err plugin []
                | None \<Rightarrow> Inr (Broke err, plugin, []))
             else Inr (Broke err, plugin, []))
      in case looked of
           Inl p \<Rightarrow> Inl p
         | Inr (Returned key, plugin', trace) \<Rightarrow> Inr ((Some key, None), plugin', trace)
         | Inr (Broke err', plugin', trace) \<Rightarrow>
             (case secret plugin' of
                None \<Rightarrow> Inr ((None, err'), plugin', trace)
              | Some fixed \<Rightarrow> Inr ((Some fixed, None), plugin', trace)))"

text \<open>A network on which every request fails, to run the model on.\<close>

definition failing_network :: "string network" where
  "failing_network =
     \<lparr>FetchOpenIDConfiguration = (\<lambda>url. Inl ''connection refused''),
      FetchJWKS = (\<lambda>url. Inl ''connection refused'')\<rparr>"

section \<open>Claims about the key cache\<close>

lemma map_of_fold_update:
  "map_of (fold (\<lambda>(keyID, key). AList.update keyID key) jwks ks) = map_of ks ++ map_of (rev jwks)"
proof (induction jwks arbitrary: ks)
  case Nil
  show ?case by simp
next
  case (Cons kv jwks)
  obtain k v where kv: "kv = (k, v)" by (cases kv)
  show ?case
    unfolding kv
    by (rule ext) (simp add: Cons.IH update_conv' map_add_def split: option.splits)
qed

lemma map_of_rev_None: "(map_of (rev xs) k = None) = (map_of xs k = None)"
  by (simp add: map_of_eq_None_iff)

lemma map_of_fold_update_None:
  "(map_of (fold (\<lambda>(keyID, key). AList.update keyID key) jwks ks) k = None)
     = (map_of ks k = None \<and> map_of jwks k = None)"
  by (auto simp: map_of_fold_update map_of_rev_None)

lemma map_of_fold_update_other:
  assumes "map_of jwks k = None"
  shows "map_of (fold (\<lambda>(keyID, key). AList.update keyID key) jwks ks) k = map_of ks k"
proof -
  from assms have "map_of (rev jwks) k = None" by (simp only: map_of_rev_None)
  then show ?thesis by (simp add: map_of_fold_update map_add_def)
qed

lemma map_of_filter_key:
  "map_of (filter (\<lambda>(k, v). P k) xs) k = (if P k then map_of xs k else None)"
  by (induction xs) auto

lemma isIssuedKey_iff:
  "distinct (map fst (issuerKeys plugin))
     \<Longrightarrow> isIssuedKey plugin keyID
         = (\<exists>source ks. map_of (issuerKeys plugin) source = Some ks \<and> map_of ks keyID \<noteq> None)"
  unfolding isIssuedKey_def list_ex_iff by fastforce

lemma keys_purgeKeys:
  "map_of (keys (purgeKeys plugin)) keyID
     = (if isIssuedKey plugin keyID then map_of (keys plugin) keyID else None)"
  by (simp add: purgeKeys_def map_of_filter_key)

lemma isIssuedKey_purgeKeys: "isIssuedKey (purgeKeys plugin) keyID = isIssuedKey plugin keyID"
  by (simp add: purgeKeys_def isIssuedKey_def)

lemma purge_invariant:
  "map_of (keys (purgeKeys plugin)) keyID \<noteq> None \<Longrightarrow> isIssuedKey (purgeKeys plugin) keyID"
  by (simp add: keys_purgeKeys isIssuedKey_purgeKeys split: if_splits)

lemma fetchKeys_stored:
  assumes "FetchJWKS net (jwks_url net issuer) = Inr jwks"
  shows "fetchKeys net plugin issuer =
           (None,
            purgeKeys
              (plugin\<lparr>keys := fold (\<lambda>(keyID, key). AList.update keyID key) jwks (keys plugin),
                      issuerKeys := AList.update (jwks_url net issuer) jwks (issuerKeys plugin)\<rparr>))"
  using assms by (simp add: fetchKeys_def Let_def)

text \<open>
  C7: after a \<open>fetchKeys\<close> that stores the key set \<open>jwks\<close> fetched for a source (the
  JWKS URL), the source's key set is the new one; every key identifier that no other
  source holds and that is absent from the new result is absent from \<open>plugin.keys\<close>;
  an identifier that was in \<open>plugin.keys\<close> and that another source holds is still
  there, with its old key when the new result does not contain it; every fetched
  identifier is there; and every identifier in \<open>plugin.keys\<close> is held by at least one
  source in \<open>issuerKeys\<close>.
\<close>

theorem C7_fetchKeys_purge:
  assumes fetched: "FetchJWKS net (jwks_url net issuer) = Inr jwks"
    and wf: "distinct (map fst (issuerKeys plugin))"
  shows "fst (fetchKeys net plugin issuer) = None
    \<and> map_of (issuerKeys (snd (fetchKeys net plugin issuer))) (jwks_url net issuer) = Some jwks
    \<and> (\<forall>keyID.
          map_of jwks keyID = None
          \<and> (\<forall>source ks. source \<noteq> jwks_url net issuer
                \<and> map_of (issuerKeys plugin) source = Some ks \<longrightarrow> map_of ks keyID = None)
          \<longrightarrow> map_of (keys (snd (fetchKeys net plugin issuer))) keyID = None)
    \<and> (\<forall>keyID source ks.
          source \<noteq> jwks_url net issuer \<and> map_of (issuerKeys plugin) source = Some ks
          \<and> map_of ks keyID \<noteq> None \<and> map_of (keys plugin) keyID \<noteq> None
          \<longrightarrow> map_of (keys (snd (fetchKeys net plugin issuer))) keyID \<noteq> None
              \<and> (map_of jwks keyID = None
                   \<longrightarrow> map_of (keys (snd (fetchKeys net plugin issuer))) keyID
                         = map_of (keys plugin) keyID))
    \<and> (\<forall>keyID. map_of jwks keyID \<noteq> None
          \<longrightarrow> map_of (keys (snd (fetchKeys net plugin issuer))) keyID \<noteq> None)
    \<and> (\<forall>keyID. map_of (keys (snd (fetchKeys net plugin issuer))) keyID \<noteq> None
          \<longrightarrow> isIssuedKey (snd (fetchKeys net plugin issuer)) keyID
            \<and> (\<exists>source ks.
                  map_of (issuerKeys (snd (fetchKeys net plugin issuer))) source = Some ks
                  \<and> map_of ks keyID \<noteq> None))"
proof -
  let ?url = "jwks_url net issuer"
  let ?stored = "plugin\<lparr>keys := fold (\<lambda>(keyID, key). AList.update keyID key) jwks (keys plugin),
                        issuerKeys := AList.update ?url jwks (issuerKeys plugin)\<rparr>"
  let ?after = "snd (fetchKeys net plugin issuer)"
  have result: "fetchKeys net plugin issuer = (None, purgeKeys ?stored)"
    using fetched by (rule fetchKeys_stored)
  then have after: "?after = purgeKeys ?stored" by simp
  have sources: "issuerKeys ?after = AList.update ?url jwks (issuerKeys plugin)"
    by (simp add: after purgeKeys_def)
  have wf': "distinct (map fst (issuerKeys ?stored))"
    using wf by (simp add: distinct_update)
  have lookup_sources: "map_of (issuerKeys ?stored) = (map_of (issuerKeys plugin))(?url \<mapsto> jwks)"
    by (simp add: update_conv')
  have issued: "isIssuedKey ?stored keyID
      = (map_of jwks keyID \<noteq> None
         \<or> (\<exists>source ks. source \<noteq> ?url \<and> map_of (issuerKeys plugin) source = Some ks
               \<and> map_of ks keyID \<noteq> None))" for keyID
    unfolding isIssuedKey_iff [OF wf'] lookup_sources by auto
  have keys_after: "map_of (keys ?after) keyID
      = (if isIssuedKey ?stored keyID
         then map_of (fold (\<lambda>(keyID, key). AList.update keyID key) jwks (keys plugin)) keyID
         else None)" for keyID
    by (simp add: after keys_purgeKeys)
  have c1: "fst (fetchKeys net plugin issuer) = None" using result by simp
  have c2: "map_of (issuerKeys ?after) ?url = Some jwks"
    by (simp add: sources update_conv')
  have c3: "map_of (keys ?after) keyID = None"
    if "map_of jwks keyID = None"
      and "\<forall>source ks. source \<noteq> ?url \<and> map_of (issuerKeys plugin) source = Some ks
             \<longrightarrow> map_of ks keyID = None" for keyID
    using that unfolding keys_after issued by auto
  have c4: "map_of (keys ?after) keyID \<noteq> None
      \<and> (map_of jwks keyID = None \<longrightarrow> map_of (keys ?after) keyID = map_of (keys plugin) keyID)"
    if "source \<noteq> ?url" and "map_of (issuerKeys plugin) source = Some ks"
      and "map_of ks keyID \<noteq> None" and "map_of (keys plugin) keyID \<noteq> None" for keyID source ks
  proof -
    from that have "isIssuedKey ?stored keyID" unfolding issued by blast
    then show ?thesis
      using that(4) unfolding keys_after
      by (simp add: map_of_fold_update_None map_of_fold_update_other)
  qed
  have c5: "map_of (keys ?after) keyID \<noteq> None" if "map_of jwks keyID \<noteq> None" for keyID
  proof -
    from that have "isIssuedKey ?stored keyID" unfolding issued by blast
    then show ?thesis using that unfolding keys_after by (simp add: map_of_fold_update_None)
  qed
  have c6: "isIssuedKey ?after keyID
      \<and> (\<exists>source ks. map_of (issuerKeys ?after) source = Some ks \<and> map_of ks keyID \<noteq> None)"
    if "map_of (keys ?after) keyID \<noteq> None" for keyID
  proof -
    from that have i: "isIssuedKey ?after keyID"
      unfolding after by (rule purge_invariant)
    have "distinct (map fst (issuerKeys ?after))"
      using wf by (simp add: sources distinct_update)
    from i isIssuedKey_iff [OF this] show ?thesis by blast
  qed
  from c1 c2 c3 c4 c5 c6 show ?thesis by blast
qed

theorem C7_fetchKeys_purge_witness:
  "map_of (keys (snd (fetchKeys
      \<lparr>FetchOpenIDConfiguration = (\<lambda>url. Inl ''connection refused''),
       FetchJWKS = (\<lambda>url. Inr [(''new'', ''key-new'')])\<rparr>
      \<lparr>secret = None, issuers = [''https://a.example.com/''], require = [],
       keys = [(''old'', ''key-old''), (''shared'', ''key-shared''), (''fixed'', ''key-fixed'')],
       issuerKeys =
         [(''internal'', [(''fixed'', [])]),
          (''https://a.example.com/.well-known/jwks.json'',
             [(''old'', ''key-old''), (''shared'', ''key-shared'')]),
          (''https://b.example.com/jwks'', [(''shared'', ''key-shared'')])],
       optional = False, cookieName = [], headerName = ''Authorization'', parameterName = [],
       forwardToken = True, freshness = 3600\<rparr>
      ''https://a.example.com/''))) ''old'' = None
   \<and> map_of (keys (snd (fetchKeys
      \<lparr>FetchOpenIDConfiguration = (\<lambda>url. Inl ''connection refused''),
       FetchJWKS = (\<lambda>url. Inr [(''new'', ''key-new'')])\<rparr>
      \<lparr>secret = None, issuers = [''https://a.example.com/''], require = [],
       keys = [(''old'', ''key-old''), (''shared'', ''key-shared''), (''fixed'', ''key-fixed'')],
       issuerKeys =
         [(''internal'', [(''fixed'', [])]),
          (''https://a.example.com/.well-known/jwks.json'',
             [(''old'', ''key-old''), (''shared'', ''key-shared'')]),
          (''https://b.example.com/jwks'', [(''shared'', ''key-shared'')])],
       optional = False, cookieName = [], headerName = ''Authorization'', parameterName = [],
       forwardToken = True, freshness = 3600\<rparr>
      ''https://a.example.com/''))) ''shared'' = Some ''key-shared''"
proof -
  let ?net = "\<lparr>FetchOpenIDConfiguration = (\<lambda>url. Inl ''connection refused''),
       FetchJWKS = (\<lambda>url. Inr [(''new'', ''key-new'')])\<rparr> :: string network"
  let ?plugin = "\<lparr>secret = None, issuers = [''https://a.example.com/''], require = [],
       keys = [(''old'', ''key-old''), (''shared'', ''key-shared''), (''fixed'', ''key-fixed'')],
       issuerKeys =
         [(''internal'', [(''fixed'', [])]),
          (''https://a.example.com/.well-known/jwks.json'',
             [(''old'', ''key-old''), (''shared'', ''key-shared'')]),
          (''https://b.example.com/jwks'', [(''shared'', ''key-shared'')])],
       optional = False, cookieName = [], headerName = ''Authorization'', parameterName = [],
       forwardToken = True, freshness = 3600\<rparr> :: string JWTPlugin"
  let ?issuer = "''https://a.example.com/''"
  have url: "jwks_url ?net ?issuer = ''https://a.example.com/.well-known/jwks.json''"
    by (simp add: jwks_url_def)
  have fetched: "FetchJWKS ?net (jwks_url ?net ?issuer) = Inr [(''new'', ''key-new'')]"
    by simp
  have wf: "distinct (map fst (issuerKeys ?plugin))"
    by simp
  note purge = C7_fetchKeys_purge [OF fetched wf]
  note unattributed = purge [THEN conjunct2, THEN conjunct2, THEN conjunct1, rule_format]
  note retained = purge [THEN conjunct2, THEN conjunct2, THEN conjunct2, THEN conjunct1,
      rule_format, THEN conjunct2, rule_format]
  have only_a: "\<forall>source ks. source \<noteq> jwks_url ?net ?issuer
      \<and> map_of (issuerKeys ?plugin) source = Some ks \<longrightarrow> map_of ks ''old'' = None"
    unfolding url by (simp split: if_splits)
  have absent: "map_of [(''new'', ''key-new'')] ''old'' = None"
    by simp
  have old: "map_of (keys (snd (fetchKeys ?net ?plugin ?issuer))) ''old'' = None"
    by (rule unattributed) (use absent only_a in blast)
  have other: "''https://b.example.com/jwks'' \<noteq> jwks_url ?net ?issuer
      \<and> map_of (issuerKeys ?plugin) ''https://b.example.com/jwks'' = Some [(''shared'', ''key-shared'')]
      \<and> map_of [(''shared'', ''key-shared'')] ''shared'' \<noteq> None
      \<and> map_of (keys ?plugin) ''shared'' \<noteq> None"
    unfolding url by simp
  have absent': "map_of [(''new'', ''key-new'')] ''shared'' = None"
    by simp
  have "map_of (keys (snd (fetchKeys ?net ?plugin ?issuer))) ''shared''
      = map_of (keys ?plugin) ''shared''"
    by (rule retained [OF other absent'])
  then have shared:
    "map_of (keys (snd (fetchKeys ?net ?plugin ?issuer))) ''shared'' = Some ''key-shared''"
    by simp
  from old shared show ?thesis by (rule conjI)
qed

subsection \<open>\<open>getKey\<close>, round by round\<close>

fun is_Fetch :: "event \<Rightarrow> bool" where
  "is_Fetch (Fetch issuer) = True"
| "is_Fetch (Lookup k) = False"

fun is_Lookup :: "event \<Rightarrow> bool" where
  "is_Lookup (Lookup k) = True"
| "is_Lookup (Fetch issuer) = False"

lemma secret_fetchKeys: "secret (snd (fetchKeys net plugin issuer)) = secret plugin"
  by (simp add: fetchKeys_def Let_def purgeKeys_def split: sum.splits)

lemma loop_hit:
  "map_of (keys plugin) k = Some key
     \<Longrightarrow> getKey_loop net token (Str k) looped err plugin trace
         = Inr (Returned key, plugin, trace @ [Lookup k])"
  by (subst getKey_loop.simps) simp

lemma loop_second_miss:
  "map_of (keys plugin) k = None
     \<Longrightarrow> getKey_loop net token (Str k) True err plugin trace
         = Inr (Broke err, plugin, trace @ [Lookup k])"
  by (subst getKey_loop.simps) simp

lemma loop_second:
  "getKey_loop net token (Str k) True err plugin trace
     = (case map_of (keys plugin) k of
          Some key \<Rightarrow> Inr (Returned key, plugin, trace @ [Lookup k])
        | None \<Rightarrow> Inr (Broke err, plugin, trace @ [Lookup k]))"
  by (cases "map_of (keys plugin) k") (simp_all add: loop_hit loop_second_miss)

lemma loop_first_refresh:
  assumes "map_of (keys plugin) k = None"
    and "map_of (Claims token) ''iss'' = Some (Str iss)"
    and "isValidIssuer plugin (canonicalizeDomain iss)"
    and "fetchKeys net plugin (canonicalizeDomain iss) = (ferr, plugin')"
  shows "getKey_loop net token (Str k) False err plugin trace
           = getKey_loop net token (Str k) True ferr plugin'
               (trace @ [Lookup k, Fetch (canonicalizeDomain iss)])"
  by (subst getKey_loop.simps) (simp add: assms Let_def)

lemma loop_first_invalid:
  assumes "map_of (keys plugin) k = None"
    and "map_of (Claims token) ''iss'' = Some (Str iss)"
    and "\<not> isValidIssuer plugin (canonicalizeDomain iss)"
  shows "getKey_loop net token (Str k) False err plugin trace
           = getKey_loop net token (Str k) True
               (Some (''issuer '' @ canonicalizeDomain iss @ '' is not valid'')) plugin
               (trace @ [Lookup k])"
  by (subst getKey_loop.simps) (simp add: assms Let_def)

lemma loop_first_no_issuer:
  assumes "map_of (keys plugin) k = None"
    and "\<forall>iss. map_of (Claims token) ''iss'' \<noteq> Some (Str iss)"
  shows "getKey_loop net token (Str k) False err plugin trace
           = Inr (Broke err, plugin, trace @ [Lookup k])"
  using assms
  by (subst getKey_loop.simps) (simp split: option.splits any.splits)

lemma loop_panic:
  "\<forall>k. kid \<noteq> Str k
     \<Longrightarrow> getKey_loop net token kid looped err plugin trace
         = Inl (Panic ''interface conversion: interface {} is not string'')"
  by (subst getKey_loop.simps) (simp split: any.splits)

text \<open>What \<open>getKey\<close> returns once the loop is over.\<close>

definition fallback ::
  "'k JWTPlugin \<Rightarrow> string option \<Rightarrow> 'k option \<times> string option" where
  "fallback plugin err = (case secret plugin of None \<Rightarrow> (None, err) | Some fixed \<Rightarrow> (Some fixed, None))"

lemma getKey_configured:
  assumes "issuers plugin \<noteq> [] \<or> keys plugin \<noteq> []"
    and "map_of (Header token) ''kid'' = Some kid"
  shows "getKey net plugin token
           = (case getKey_loop net token kid False (Some ''no secret configured'') plugin [] of
                Inl p \<Rightarrow> Inl p
              | Inr (Returned key, plugin', trace) \<Rightarrow> Inr ((Some key, None), plugin', trace)
              | Inr (Broke err', plugin', trace) \<Rightarrow> Inr (fallback plugin' err', plugin', trace))"
  using assms
  by (auto simp: getKey_def fallback_def Let_def split: sum.splits loop_exit.splits option.splits)

lemma getKey_hit:
  assumes "map_of (Header token) ''kid'' = Some (Str k)"
    and "map_of (keys plugin) k = Some key"
  shows "getKey net plugin token = Inr ((Some key, None), plugin, [Lookup k])"
proof -
  from assms(2) have "keys plugin \<noteq> []" by auto
  then show ?thesis
    using assms by (simp add: getKey_configured loop_hit)
qed

lemma getKey_refresh:
  assumes "issuers plugin \<noteq> [] \<or> keys plugin \<noteq> []"
    and "map_of (Header token) ''kid'' = Some (Str k)"
    and "map_of (keys plugin) k = None"
    and "map_of (Claims token) ''iss'' = Some (Str iss)"
    and "isValidIssuer plugin (canonicalizeDomain iss)"
    and "fetchKeys net plugin (canonicalizeDomain iss) = (ferr, plugin')"
  shows "getKey net plugin token
           = Inr (case map_of (keys plugin') k of
                    Some key \<Rightarrow> (Some key, None)
                  | None \<Rightarrow> fallback plugin ferr,
                  plugin', [Lookup k, Fetch (canonicalizeDomain iss), Lookup k])"
proof -
  have "secret plugin' = secret plugin"
    using secret_fetchKeys [of net plugin "canonicalizeDomain iss"] assms(6) by simp
  then have "fallback plugin' ferr = fallback plugin ferr"
    by (simp add: fallback_def)
  then show ?thesis
    using assms
    by (simp add: getKey_configured loop_first_refresh loop_second split: option.splits)
qed

lemma getKey_invalid_issuer:
  assumes "issuers plugin \<noteq> [] \<or> keys plugin \<noteq> []"
    and "map_of (Header token) ''kid'' = Some (Str k)"
    and "map_of (keys plugin) k = None"
    and "map_of (Claims token) ''iss'' = Some (Str iss)"
    and "\<not> isValidIssuer plugin (canonicalizeDomain iss)"
  shows "getKey net plugin token
           = Inr (fallback plugin (Some (''issuer '' @ canonicalizeDomain iss @ '' is not valid'')),
                  plugin, [Lookup k, Lookup k])"
  using assms
  by (simp add: getKey_configured loop_first_invalid loop_second)

lemma getKey_no_issuer:
  assumes "issuers plugin \<noteq> [] \<or> keys plugin \<noteq> []"
    and "map_of (Header token) ''kid'' = Some (Str k)"
    and "map_of (keys plugin) k = None"
    and "\<forall>iss. map_of (Claims token) ''iss'' \<noteq> Some (Str iss)"
  shows "getKey net plugin token
           = Inr (fallback plugin (Some ''no secret configured''), plugin, [Lookup k])"
  using assms
  by (simp add: getKey_configured loop_first_no_issuer)

lemma getKey_no_kid:
  assumes "(issuers plugin = [] \<and> keys plugin = []) \<or> map_of (Header token) ''kid'' = None"
  shows "getKey net plugin token
           = Inr (fallback plugin (Some ''no secret configured''), plugin, [])"
  using assms
  by (auto simp: getKey_def fallback_def Let_def split: option.splits)

lemma getKey_panic:
  assumes "issuers plugin \<noteq> [] \<or> keys plugin \<noteq> []"
    and "map_of (Header token) ''kid'' = Some kid"
    and "\<forall>k. kid \<noteq> Str k"
  shows "getKey net plugin token
           = Inl (Panic ''interface conversion: interface {} is not string'')"
  using assms by (simp add: getKey_configured loop_panic)

lemma getKey_trace:
  assumes "getKey net plugin token = Inr (result, plugin', trace)"
  shows "length (filter is_Fetch trace) \<le> 1 \<and> length (filter is_Lookup trace) \<le> 2"
proof (cases "(issuers plugin = [] \<and> keys plugin = []) \<or> map_of (Header token) ''kid'' = None")
  case True
  with assms show ?thesis by (auto simp: getKey_no_kid)
next
  case False
  then obtain kid where conf: "issuers plugin \<noteq> [] \<or> keys plugin \<noteq> []"
    and kid: "map_of (Header token) ''kid'' = Some kid" by auto
  show ?thesis
  proof (cases "\<exists>k. kid = Str k")
    case False
    with conf kid assms show ?thesis by (auto simp: getKey_panic)
  next
    case True
    then obtain k where k: "kid = Str k" ..
    show ?thesis
    proof (cases "map_of (keys plugin) k")
      case (Some key)
      with kid k assms show ?thesis by (auto simp: getKey_hit)
    next
      case None
      show ?thesis
      proof (cases "\<exists>iss. map_of (Claims token) ''iss'' = Some (Str iss)")
        case False
        with conf kid k None assms show ?thesis by (auto simp: getKey_no_issuer)
      next
        case True
        then obtain iss where iss: "map_of (Claims token) ''iss'' = Some (Str iss)" ..
        show ?thesis
        proof (cases "isValidIssuer plugin (canonicalizeDomain iss)")
          case False
          with conf kid k None iss assms show ?thesis by (auto simp: getKey_invalid_issuer)
        next
          case True
          obtain ferr p where "fetchKeys net plugin (canonicalizeDomain iss) = (ferr, p)"
            by (cases "fetchKeys net plugin (canonicalizeDomain iss)")
          with conf kid k None iss True assms show ?thesis by (auto simp: getKey_refresh)
        qed
      qed
    qed
  qed
qed

lemma canonicalizeDomain_slash: "HasSuffix (canonicalizeDomain domain) ''/''"
  by (cases "HasSuffix domain ''/''") (simp_all add: canonicalizeDomain_def HasSuffix_def)

text \<open>
  C8, as stated, at a token whose issuer is allowed and whose key fetch fails: no fixed
  secret is configured and the issuer passed the pattern check, so the claim promises
  the error "no secret configured"; \<open>getKey\<close> returns the error of the fetch, which the
  miss path stored in \<open>err\<close>.
\<close>

theorem C8_fetch_error_counterexample:
  "isValidIssuer
     (\<lparr>secret = None, issuers = [''https://i.example.com/''], require = [], keys = [],
      issuerKeys = [], optional = False, cookieName = [], headerName = ''Authorization'',
      parameterName = [], forwardToken = True, freshness = 3600\<rparr> :: string JWTPlugin)
     (canonicalizeDomain ''https://i.example.com'')
   \<and> getKey failing_network
       \<lparr>secret = None, issuers = [''https://i.example.com/''], require = [], keys = [],
        issuerKeys = [], optional = False, cookieName = [], headerName = ''Authorization'',
        parameterName = [], forwardToken = True, freshness = 3600\<rparr>
       \<lparr>Header = [(''alg'', Str ''RS256''), (''kid'', Str ''k1'')],
        Claims = [(''iss'', Str ''https://i.example.com'')]\<rparr>
     = Inr ((None, Some ''connection refused''),
            \<lparr>secret = None, issuers = [''https://i.example.com/''], require = [], keys = [],
             issuerKeys = [], optional = False, cookieName = [], headerName = ''Authorization'',
             parameterName = [], forwardToken = True, freshness = 3600\<rparr>,
            [Lookup ''k1'', Fetch ''https://i.example.com/'', Lookup ''k1''])"
proof -
  let ?plugin = "\<lparr>secret = None, issuers = [''https://i.example.com/''], require = [],
      keys = [], issuerKeys = [], optional = False, cookieName = [],
      headerName = ''Authorization'', parameterName = [], forwardToken = True,
      freshness = 3600\<rparr> :: string JWTPlugin"
  let ?token = "\<lparr>Header = [(''alg'', Str ''RS256''), (''kid'', Str ''k1'')],
      Claims = [(''iss'', Str ''https://i.example.com'')]\<rparr>"
  have canon: "canonicalizeDomain ''https://i.example.com'' = ''https://i.example.com/''"
    by (simp add: canonicalizeDomain_def HasSuffix_def)
  have valid: "isValidIssuer ?plugin (canonicalizeDomain ''https://i.example.com'')"
    unfolding canon by (simp add: isValidIssuer_def)
  have fetch: "fetchKeys failing_network ?plugin (canonicalizeDomain ''https://i.example.com'')
      = (Some ''connection refused'', ?plugin)"
    by (simp add: fetchKeys_def failing_network_def Let_def)
  have "getKey failing_network ?plugin ?token
      = Inr (case map_of (keys ?plugin) ''k1'' of
               Some key \<Rightarrow> (Some key, None)
             | None \<Rightarrow> fallback ?plugin (Some ''connection refused''),
             ?plugin,
             [Lookup ''k1'', Fetch (canonicalizeDomain ''https://i.example.com''), Lookup ''k1''])"
    by (rule getKey_refresh [OF _ _ _ _ valid fetch]) simp_all
  then have "getKey failing_network ?plugin ?token
      = Inr ((None, Some ''connection refused''), ?plugin,
             [Lookup ''k1'', Fetch ''https://i.example.com/'', Lookup ''k1''])"
    unfolding canon by (simp add: fallback_def)
  with valid show ?thesis by (rule conjI)
qed

text \<open>
  C8, amended: \<open>getKey\<close> returns a cached key at once on a kid hit, with one lookup,
  no fetch and the cache unchanged. On a miss whose token carries a string \<open>iss\<close> claim
  that, canonicalized to end with a slash, matches an allowed issuer pattern, it fetches
  that issuer's keys and looks the kid up once more, and never goes round again: in every
  call there are at most one fetch and at most two lookups. When the second lookup hits,
  it returns the key. When no cache hit is achieved it returns the fixed secret if one is
  configured. When none is configured, it returns the error of the fetch if the fetch
  for an allowed issuer failed, the error "issuer ... is not valid" if the issuer failed
  the pattern check, and the error "no secret configured" if no fetch was attempted for
  another reason (neither issuers nor keys configured, no kid in the header, no string
  \<open>iss\<close> claim). Nothing is said here of the remaining case, a fetch that succeeds and
  leaves the kid missing while no fixed secret is configured.
\<close>

theorem C8_getKey:
  "(map_of (Header token) ''kid'' = Some (Str k) \<and> map_of (keys plugin) k = Some key
      \<longrightarrow> getKey net plugin token = Inr ((Some key, None), plugin, [Lookup k]))
   \<and> ((issuers plugin \<noteq> [] \<or> keys plugin \<noteq> [])
       \<and> map_of (Header token) ''kid'' = Some (Str k) \<and> map_of (keys plugin) k = None
       \<and> map_of (Claims token) ''iss'' = Some (Str iss)
       \<and> isValidIssuer plugin (canonicalizeDomain iss)
       \<and> fetchKeys net plugin (canonicalizeDomain iss) = (ferr, plugin')
      \<longrightarrow> (\<exists>result.
            getKey net plugin token
              = Inr (result, plugin', [Lookup k, Fetch (canonicalizeDomain iss), Lookup k])
            \<and> (\<forall>fetched. map_of (keys plugin') k = Some fetched
                  \<longrightarrow> result = (Some fetched, None))
            \<and> (\<forall>fixed. map_of (keys plugin') k = None \<and> secret plugin = Some fixed
                  \<longrightarrow> result = (Some fixed, None))
            \<and> (\<forall>e. map_of (keys plugin') k = None \<and> secret plugin = None \<and> ferr = Some e
                  \<longrightarrow> result = (None, Some e))))
   \<and> ((issuers plugin \<noteq> [] \<or> keys plugin \<noteq> [])
       \<and> map_of (Header token) ''kid'' = Some (Str k) \<and> map_of (keys plugin) k = None
       \<and> map_of (Claims token) ''iss'' = Some (Str iss)
       \<and> \<not> isValidIssuer plugin (canonicalizeDomain iss)
      \<longrightarrow> getKey net plugin token
          = Inr (fallback plugin (Some (''issuer '' @ canonicalizeDomain iss @ '' is not valid'')),
                 plugin, [Lookup k, Lookup k]))
   \<and> ((issuers plugin \<noteq> [] \<or> keys plugin \<noteq> [])
       \<and> map_of (Header token) ''kid'' = Some (Str k) \<and> map_of (keys plugin) k = None
       \<and> (\<forall>s. map_of (Claims token) ''iss'' \<noteq> Some (Str s))
      \<longrightarrow> getKey net plugin token
          = Inr (fallback plugin (Some ''no secret configured''), plugin, [Lookup k]))
   \<and> ((issuers plugin = [] \<and> keys plugin = []) \<or> map_of (Header token) ''kid'' = None
      \<longrightarrow> getKey net plugin token
          = Inr (fallback plugin (Some ''no secret configured''), plugin, []))
   \<and> (secret plugin = Some fixed \<longrightarrow> fallback plugin err = (Some fixed, None))
   \<and> (secret plugin = None \<longrightarrow> fallback plugin err = (None, err))
   \<and> (getKey net plugin token = Inr (returned, after, trace)
      \<longrightarrow> length (filter is_Fetch trace) \<le> 1 \<and> length (filter is_Lookup trace) \<le> 2)
   \<and> HasSuffix (canonicalizeDomain iss) ''/''"
proof -
  have hit: "map_of (Header token) ''kid'' = Some (Str k) \<and> map_of (keys plugin) k = Some key
      \<longrightarrow> getKey net plugin token = Inr ((Some key, None), plugin, [Lookup k])"
    by (simp add: getKey_hit)
  have refresh: "\<exists>result.
            getKey net plugin token
              = Inr (result, plugin', [Lookup k, Fetch (canonicalizeDomain iss), Lookup k])
            \<and> (\<forall>fetched. map_of (keys plugin') k = Some fetched
                  \<longrightarrow> result = (Some fetched, None))
            \<and> (\<forall>fixed. map_of (keys plugin') k = None \<and> secret plugin = Some fixed
                  \<longrightarrow> result = (Some fixed, None))
            \<and> (\<forall>e. map_of (keys plugin') k = None \<and> secret plugin = None \<and> ferr = Some e
                  \<longrightarrow> result = (None, Some e))"
    if "issuers plugin \<noteq> [] \<or> keys plugin \<noteq> []"
      and "map_of (Header token) ''kid'' = Some (Str k)" and "map_of (keys plugin) k = None"
      and "map_of (Claims token) ''iss'' = Some (Str iss)"
      and "isValidIssuer plugin (canonicalizeDomain iss)"
      and "fetchKeys net plugin (canonicalizeDomain iss) = (ferr, plugin')"
    unfolding getKey_refresh [OF that]
    by (cases "map_of (keys plugin') k") (simp_all add: fallback_def)
  have invalid: "(issuers plugin \<noteq> [] \<or> keys plugin \<noteq> [])
       \<and> map_of (Header token) ''kid'' = Some (Str k) \<and> map_of (keys plugin) k = None
       \<and> map_of (Claims token) ''iss'' = Some (Str iss)
       \<and> \<not> isValidIssuer plugin (canonicalizeDomain iss)
      \<longrightarrow> getKey net plugin token
          = Inr (fallback plugin (Some (''issuer '' @ canonicalizeDomain iss @ '' is not valid'')),
                 plugin, [Lookup k, Lookup k])"
    by (simp add: getKey_invalid_issuer)
  have no_issuer: "(issuers plugin \<noteq> [] \<or> keys plugin \<noteq> [])
       \<and> map_of (Header token) ''kid'' = Some (Str k) \<and> map_of (keys plugin) k = None
       \<and> (\<forall>s. map_of (Claims token) ''iss'' \<noteq> Some (Str s))
      \<longrightarrow> getKey net plugin token
          = Inr (fallback plugin (Some ''no secret configured''), plugin, [Lookup k])"
    by (simp add: getKey_no_issuer)
  have no_kid: "(issuers plugin = [] \<and> keys plugin = []) \<or> map_of (Header token) ''kid'' = None
      \<longrightarrow> getKey net plugin token
          = Inr (fallback plugin (Some ''no secret configured''), plugin, [])"
    using getKey_no_kid [of plugin token net] by blast
  have fixed: "secret plugin = Some fixed \<longrightarrow> fallback plugin err = (Some fixed, None)"
    by (simp add: fallback_def)
  have none: "secret plugin = None \<longrightarrow> fallback plugin err = (None, err)"
    by (simp add: fallback_def)
  have bound: "getKey net plugin token = Inr (returned, after, trace)
      \<longrightarrow> length (filter is_Fetch trace) \<le> 1 \<and> length (filter is_Lookup trace) \<le> 2"
    using getKey_trace [of net plugin token returned after trace] by blast
  from refresh have refresh': "(issuers plugin \<noteq> [] \<or> keys plugin \<noteq> [])
       \<and> map_of (Header token) ''kid'' = Some (Str k) \<and> map_of (keys plugin) k = None
       \<and> map_of (Claims token) ''iss'' = Some (Str iss)
       \<and> isValidIssuer plugin (canonicalizeDomain iss)
       \<and> fetchKeys net plugin (canonicalizeDomain iss) = (ferr, plugin')
      \<longrightarrow> (\<exists>result.
            getKey net plugin token
              = Inr (result, plugin', [Lookup k, Fetch (canonicalizeDomain iss), Lookup k])
            \<and> (\<forall>fetched. map_of (keys plugin') k = Some fetched
                  \<longrightarrow> result = (Some fetched, None))
            \<and> (\<forall>fixed. map_of (keys plugin') k = None \<and> secret plugin = Some fixed
                  \<longrightarrow> result = (Some fixed, None))
            \<and> (\<forall>e. map_of (keys plugin') k = None \<and> secret plugin = None \<and> ferr = Some e
                  \<longrightarrow> result = (None, Some e)))"
    by (intro impI) (elim conjE, rule refresh)
  show ?thesis
    by (intro conjI hit refresh' invalid no_issuer no_kid fixed none bound
        canonicalizeDomain_slash)
qed

text \<open>
  C10: when at least one issuer or one keyed secret is configured and the token's header
  has a \<open>kid\<close> that is not a string, the type assertion \<open>kid.(string)\<close> panics: \<open>getKey\<close>
  returns neither an error nor the fixed secret. With nothing configured the header is
  not read and \<open>getKey\<close> returns the fallback.
\<close>

theorem C10_nonstring_kid_panics:
  "((issuers plugin \<noteq> [] \<or> keys plugin \<noteq> [])
      \<and> map_of (Header token) ''kid'' = Some kid \<and> (\<forall>k. kid \<noteq> Str k)
      \<longrightarrow> getKey net plugin token
          = Inl (Panic ''interface conversion: interface {} is not string''))
   \<and> (issuers plugin = [] \<and> keys plugin = []
      \<longrightarrow> (\<exists>result. getKey net plugin token = Inr (result, plugin, [])))"
proof -
  have a: "(issuers plugin \<noteq> [] \<or> keys plugin \<noteq> [])
      \<and> map_of (Header token) ''kid'' = Some kid \<and> (\<forall>k. kid \<noteq> Str k)
      \<longrightarrow> getKey net plugin token
          = Inl (Panic ''interface conversion: interface {} is not string'')"
    using getKey_panic [of plugin token kid net] by blast
  have b: "issuers plugin = [] \<and> keys plugin = []
      \<longrightarrow> (\<exists>result. getKey net plugin token = Inr (result, plugin, []))"
    using getKey_no_kid [of plugin token net] by blast
  from a b show ?thesis by (rule conjI)
qed

theorem C8_getKey_witness:
  "getKey failing_network
     \<lparr>secret = None, issuers = [], require = [], keys = [(''k1'', ''key1'')],
      issuerKeys = [(''internal'', [(''k1'', [])])], optional = False, cookieName = [],
      headerName = ''Authorization'', parameterName = [], forwardToken = True,
      freshness = 3600\<rparr>
     \<lparr>Header = [(''kid'', Str ''k1'')], Claims = []\<rparr>
     = Inr ((Some ''key1'', None),
            \<lparr>secret = None, issuers = [], require = [], keys = [(''k1'', ''key1'')],
             issuerKeys = [(''internal'', [(''k1'', [])])], optional = False, cookieName = [],
             headerName = ''Authorization'', parameterName = [], forwardToken = True,
             freshness = 3600\<rparr>,
            [Lookup ''k1''])
   \<and> getKey
       \<lparr>FetchOpenIDConfiguration = (\<lambda>url. Inr ''https://i.example.com/jwks''),
        FetchJWKS = (\<lambda>url. Inr [(''k1'', ''fetched'')])\<rparr>
       \<lparr>secret = None, issuers = [''https://*.example.com/''], require = [], keys = [],
        issuerKeys = [], optional = False, cookieName = [], headerName = ''Authorization'',
        parameterName = [], forwardToken = True, freshness = 3600\<rparr>
       \<lparr>Header = [(''kid'', Str ''k1'')], Claims = [(''iss'', Str ''https://i.example.com'')]\<rparr>
     = Inr ((Some ''fetched'', None),
            \<lparr>secret = None, issuers = [''https://*.example.com/''], require = [],
             keys = [(''k1'', ''fetched'')],
             issuerKeys = [(''https://i.example.com/jwks'', [(''k1'', ''fetched'')])],
             optional = False, cookieName = [], headerName = ''Authorization'',
             parameterName = [], forwardToken = True, freshness = 3600\<rparr>,
            [Lookup ''k1'', Fetch ''https://i.example.com/'', Lookup ''k1''])
   \<and> getKey failing_network
       \<lparr>secret = None, issuers = [''https://i.example.com/''], require = [], keys = [],
        issuerKeys = [], optional = False, cookieName = [], headerName = ''Authorization'',
        parameterName = [], forwardToken = True, freshness = 3600\<rparr>
       \<lparr>Header = [(''kid'', Str ''k1'')], Claims = [(''iss'', Str ''https://o.example.org'')]\<rparr>
     = Inr ((None, Some ''issuer https://o.example.org/ is not valid''),
            \<lparr>secret = None, issuers = [''https://i.example.com/''], require = [], keys = [],
             issuerKeys = [], optional = False, cookieName = [], headerName = ''Authorization'',
             parameterName = [], forwardToken = True, freshness = 3600\<rparr>,
            [Lookup ''k1'', Lookup ''k1''])"
proof -
  let ?cached = "\<lparr>secret = None, issuers = [], require = [], keys = [(''k1'', ''key1'')],
      issuerKeys = [(''internal'', [(''k1'', [])])], optional = False, cookieName = [],
      headerName = ''Authorization'', parameterName = [], forwardToken = True,
      freshness = 3600\<rparr> :: string JWTPlugin"
  let ?net = "\<lparr>FetchOpenIDConfiguration = (\<lambda>url. Inr ''https://i.example.com/jwks''),
      FetchJWKS = (\<lambda>url. Inr [(''k1'', ''fetched'')])\<rparr> :: string network"
  let ?wild = "\<lparr>secret = None, issuers = [''https://*.example.com/''], require = [], keys = [],
      issuerKeys = [], optional = False, cookieName = [], headerName = ''Authorization'',
      parameterName = [], forwardToken = True, freshness = 3600\<rparr> :: string JWTPlugin"
  let ?wild' = "\<lparr>secret = None, issuers = [''https://*.example.com/''], require = [],
      keys = [(''k1'', ''fetched'')],
      issuerKeys = [(''https://i.example.com/jwks'', [(''k1'', ''fetched'')])],
      optional = False, cookieName = [], headerName = ''Authorization'',
      parameterName = [], forwardToken = True, freshness = 3600\<rparr> :: string JWTPlugin"
  let ?strict = "\<lparr>secret = None, issuers = [''https://i.example.com/''], require = [],
      keys = [], issuerKeys = [], optional = False, cookieName = [],
      headerName = ''Authorization'', parameterName = [], forwardToken = True,
      freshness = 3600\<rparr> :: string JWTPlugin"
  let ?t1 = "\<lparr>Header = [(''kid'', Str ''k1'')], Claims = []\<rparr>"
  let ?t2 = "\<lparr>Header = [(''kid'', Str ''k1'')],
      Claims = [(''iss'', Str ''https://i.example.com'')]\<rparr>"
  let ?t3 = "\<lparr>Header = [(''kid'', Str ''k1'')],
      Claims = [(''iss'', Str ''https://o.example.org'')]\<rparr>"
  have canon: "canonicalizeDomain ''https://i.example.com'' = ''https://i.example.com/''"
    by (simp add: canonicalizeDomain_def HasSuffix_def)
  have canon': "canonicalizeDomain ''https://o.example.org'' = ''https://o.example.org/''"
    by (simp add: canonicalizeDomain_def HasSuffix_def)
  have valid: "isValidIssuer ?wild ''https://i.example.com/''"
    by (simp add: isValidIssuer_def)
  have invalid: "\<not> isValidIssuer ?strict ''https://o.example.org/''"
    by (simp add: isValidIssuer_def)
  have fetch: "fetchKeys ?net ?wild ''https://i.example.com/'' = (None, ?wild')"
    by (simp add: fetchKeys_def jwks_url_def Let_def purgeKeys_def isIssuedKey_def)
  have 1: "getKey failing_network ?cached ?t1 = Inr ((Some ''key1'', None), ?cached, [Lookup ''k1''])"
    using C8_getKey [where token = ?t1 and plugin = ?cached and k = "''k1''"
        and key = "''key1''" and net = failing_network]
    by simp
  from C8_getKey [where token = ?t2 and plugin = ?wild and k = "''k1''"
      and iss = "''https://i.example.com''" and net = ?net and ferr = None
      and plugin' = ?wild'] valid fetch
  obtain result where
    r: "getKey ?net ?wild ?t2
          = Inr (result, ?wild', [Lookup ''k1'', Fetch ''https://i.example.com/'', Lookup ''k1''])"
    and h: "\<forall>fetched. map_of (keys ?wild') ''k1'' = Some fetched \<longrightarrow> result = (Some fetched, None)"
    unfolding canon by auto
  from h have "result = (Some ''fetched'', None)" by simp
  with r have 2: "getKey ?net ?wild ?t2
      = Inr ((Some ''fetched'', None), ?wild',
             [Lookup ''k1'', Fetch ''https://i.example.com/'', Lookup ''k1''])"
    by simp
  have 3: "getKey failing_network ?strict ?t3
      = Inr ((None, Some ''issuer https://o.example.org/ is not valid''), ?strict,
             [Lookup ''k1'', Lookup ''k1''])"
    using C8_getKey [where token = ?t3 and plugin = ?strict and k = "''k1''"
        and iss = "''https://o.example.org''" and net = failing_network and err = None] invalid
    unfolding canon' by (simp add: fallback_def)
  from 1 2 3 show ?thesis by blast
qed

theorem C10_nonstring_kid_panics_witness:
  "getKey failing_network
     \<lparr>secret = Some ''fixed secret'', issuers = [], require = [], keys = [(''k1'', ''key1'')],
      issuerKeys = [(''internal'', [(''k1'', [])])], optional = False, cookieName = [],
      headerName = ''Authorization'', parameterName = [], forwardToken = True,
      freshness = 3600\<rparr>
     \<lparr>Header = [(''alg'', Str ''HS256''), (''kid'', Slice [Str ''k1''])], Claims = []\<rparr>
     = Inl (Panic ''interface conversion: interface {} is not string'')"
  using C10_nonstring_kid_panics
    [where plugin = "\<lparr>secret = Some ''fixed secret'', issuers = [], require = [],
        keys = [(''k1'', ''key1'')], issuerKeys = [(''internal'', [(''k1'', [])])],
        optional = False, cookieName = [], headerName = ''Authorization'', parameterName = [],
        forwardToken = True, freshness = 3600\<rparr>"
      and token = "\<lparr>Header = [(''alg'', Str ''HS256''), (''kid'', Slice [Str ''k1''])],
        Claims = []\<rparr>"
      and kid = "Slice [Str ''k1'']" and net = failing_network]
  by simp

section \<open>Extracting the token from the request\<close>

text \<open>
  The request as the extraction functions see it: the cookies that \<open>request.Cookies()\<close>
  parses from the \<open>Cookie\<close> header, in order; the other fields of \<open>request.Header\<close>, a
  map from a field name to its values; and the map \<open>request.URL.Query()\<close>. Removing a
  cookie, a header field or a query parameter is a change of these parsed parts; the
  text of the \<open>Cookie\<close> header and of the query string is not modelled.
  \<open>Header.Del\<close> deletes the canonical form of the name, and
  \<open>textproto.CanonicalMIMEHeaderKey\<close> is a parameter.
\<close>

record Request =
  Cookies :: "(string \<times> string) list"
  RequestHeader :: "(string \<times> string list) list"
  Query :: "(string \<times> string list) list"

definition ToLower :: "char \<Rightarrow> char" where
  "ToLower c =
     (case map_of (zip ''ABCDEFGHIJKLMNOPQRSTUVWXYZ'' ''abcdefghijklmnopqrstuvwxyz'') c of
        Some lower \<Rightarrow> lower
      | None \<Rightarrow> c)"

definition EqualFold :: "string \<Rightarrow> string \<Rightarrow> bool" where
  "EqualFold s t = (map ToLower s = map ToLower t)"

definition extractTokenFromCookie :: "'k JWTPlugin \<Rightarrow> Request \<Rightarrow> string \<times> Request" where
  "extractTokenFromCookie plugin request =
     (case find (\<lambda>(name, v). name = cookieName plugin) (Cookies request) of
        None \<Rightarrow> ([], request)
      | Some (name, v) \<Rightarrow>
          (v,
           if \<not> forwardToken plugin
           then request\<lparr>Cookies := filter (\<lambda>(name, v). name \<noteq> cookieName plugin) (Cookies request)\<rparr>
           else request))"

definition extractTokenFromHeader ::
  "(string \<Rightarrow> string) \<Rightarrow> 'k JWTPlugin \<Rightarrow> Request \<Rightarrow> panic + string \<times> Request" where
  "extractTokenFromHeader CanonicalMIMEHeaderKey plugin request =
     (case map_of (RequestHeader request) (headerName plugin) of
        None \<Rightarrow> Inr ([], request)
      | Some header \<Rightarrow>
          (case header of
             [] \<Rightarrow> Inl (Panic ''index out of range [0] with length 0'')
           | token # rest \<Rightarrow>
               (let request' =
                  (if \<not> forwardToken plugin
                   then request\<lparr>RequestHeader :=
                          AList.delete (CanonicalMIMEHeaderKey (headerName plugin))
                            (RequestHeader request)\<rparr>
                   else request)
                in if length token \<ge> 7 \<and> EqualFold (take 7 token) ''Bearer ''
                   then Inr (drop 7 token, request')
                   else Inr (token, request'))))"

definition extractTokenFromQuery :: "'k JWTPlugin \<Rightarrow> Request \<Rightarrow> string \<times> Request" where
  "extractTokenFromQuery plugin request =
     (case map_of (Query request) (parameterName plugin) of
        Some vs \<Rightarrow>
          (case vs of [] \<Rightarrow> [] | token # rest \<Rightarrow> token,
           if \<not> forwardToken plugin
           then request\<lparr>Query := AList.delete (parameterName plugin) (Query request)\<rparr>
           else request)
      | None \<Rightarrow> ([], request))"

text \<open>
  \<open>extractToken\<close>: each method runs only when it is configured and no earlier method
  found a token, and it runs on the request as the earlier methods left it.
\<close>

definition extractToken ::
  "(string \<Rightarrow> string) \<Rightarrow> 'k JWTPlugin \<Rightarrow> Request \<Rightarrow> panic + string \<times> Request" where
  "extractToken CanonicalMIMEHeaderKey plugin request =
     (let (token, request1) =
        (if cookieName plugin \<noteq> [] then extractTokenFromCookie plugin request
         else ([], request))
      in case (if length token = 0 \<and> headerName plugin \<noteq> []
               then extractTokenFromHeader CanonicalMIMEHeaderKey plugin request1
               else Inr (token, request1)) of
           Inl p \<Rightarrow> Inl p
         | Inr (token, request2) \<Rightarrow>
             if length token = 0 \<and> parameterName plugin \<noteq> []
             then Inr (extractTokenFromQuery plugin request2)
             else Inr (token, request2))"

text \<open>
  The requests that \<open>net/http\<close> hands to a handler: every header field has at least one
  value and a canonical name.
\<close>

definition wellformed_header :: "(string \<Rightarrow> string) \<Rightarrow> Request \<Rightarrow> bool" where
  "wellformed_header CanonicalMIMEHeaderKey request =
     list_all (\<lambda>(name, vs). vs \<noteq> [] \<and> CanonicalMIMEHeaderKey name = name)
       (RequestHeader request)"


definition header_source :: "'k JWTPlugin \<Rightarrow> Request \<Rightarrow> string" where
  "header_source plugin request =
     (case map_of (RequestHeader request) (headerName plugin) of
        Some (token # rest) \<Rightarrow>
          if length token \<ge> 7 \<and> map ToLower (take 7 token) = ''bearer '' then drop 7 token
          else token
      | _ \<Rightarrow> [])"

definition query_source :: "'k JWTPlugin \<Rightarrow> Request \<Rightarrow> string" where
  "query_source plugin request =
     (case map_of (Query request) (parameterName plugin) of
        Some (token # rest) \<Rightarrow> token
      | _ \<Rightarrow> [])"

section \<open>Claims about the extraction\<close>









lemma wellformed_header_Cookies [simp]:
  "wellformed_header canon (request\<lparr>Cookies := cs\<rparr>) = wellformed_header canon request"
  by (simp add: wellformed_header_def)

lemma header_source_Cookies [simp]:
  "header_source plugin (request\<lparr>Cookies := cs\<rparr>) = header_source plugin request"
  by (simp add: header_source_def)

lemma query_source_other [simp]:
  "query_source plugin (request\<lparr>Cookies := cs\<rparr>) = query_source plugin request"
  "query_source plugin (request\<lparr>RequestHeader := hs\<rparr>) = query_source plugin request"
  by (simp_all add: query_source_def)



section \<open>The validation pipeline\<close>

definition StatusOK :: int where "StatusOK = 200"
definition StatusUnauthorized :: int where "StatusUnauthorized = 401"
definition StatusForbidden :: int where "StatusForbidden = 403"

text \<open>The value of an \<open>int64\<close> expression whose mathematical value is \<open>x\<close>.\<close>

definition int64 :: "int \<Rightarrow> int" where
  "int64 x = (x + 2 ^ 63) mod 2 ^ 64 - 2 ^ 63"

text \<open>
  \<open>allowRefresh\<close>, with the reading of the clock (\<open>time.Now().Unix()\<close>) as an argument.
  The type assertion \<open>iat.(json.Number)\<close> has no \<open>ok\<close> result: it panics on a claim of
  another type.
\<close>

definition allowRefresh :: "'k JWTPlugin \<Rightarrow> int \<Rightarrow> MapClaims \<Rightarrow> panic + bool" where
  "allowRefresh plugin now claims =
     (if freshness plugin = 0 then Inr False
      else
        (case map_of claims ''iat'' of
           None \<Rightarrow> Inr False
         | Some iat \<Rightarrow>
             (case iat of
                Number n \<Rightarrow>
                  (case Int64 n of
                     None \<Rightarrow> Inr False
                   | Some v \<Rightarrow> Inr (int64 (now - v) > freshness plugin))
              | _ \<Rightarrow> Inl (Panic ''interface conversion: interface {} is not json.Number''))))"

text \<open>
  The collaborators of \<open>validate\<close>. \<open>decode\<close> and \<open>verify\<close> are the two halves of
  \<open>jwt.Parser.Parse\<close>, before and after it calls the key function: splitting and
  decoding the token and checking its method; then checking the signature with the key
  and validating the registered claims (\<open>None\<close> when all is well).
  \<open>mapClaimsToHeaders\<close> projects claims onto headers of the forwarded request.
\<close>

record 'k collaborators =
  decode :: "string \<Rightarrow> string + Token"
  verify :: "'k option \<Rightarrow> string \<Rightarrow> Token \<Rightarrow> string option"
  mapClaimsToHeaders :: "MapClaims \<Rightarrow> Request \<Rightarrow> Request"

definition Parse ::
  "'k collaborators \<Rightarrow> 'k network \<Rightarrow> 'k JWTPlugin \<Rightarrow> string
     \<Rightarrow> panic + ((string + Token) \<times> 'k JWTPlugin)" where
  "Parse jwt net plugin tokenString =
     (case decode jwt tokenString of
        Inl err \<Rightarrow> Inr (Inl err, plugin)
      | Inr token \<Rightarrow>
          (case getKey net plugin token of
             Inl p \<Rightarrow> Inl p
           | Inr ((key, err), plugin', trace) \<Rightarrow>
               (case err of
                  Some e \<Rightarrow>
                    Inr (Inl (''token is unverifiable: error while executing keyfunc: '' @ e),
                         plugin')
                | None \<Rightarrow>
                    (case verify jwt key tokenString token of
                       Some e \<Rightarrow> Inr (Inl e, plugin')
                     | None \<Rightarrow> Inr (Inr token, plugin')))))"

text \<open>
  \<open>validate\<close> returns the status, the error (\<open>None\<close> for \<open>nil\<close>), and the plugin and the
  request as the call leaves them.
\<close>

definition validate ::
  "externals \<Rightarrow> (string \<Rightarrow> string) \<Rightarrow> 'k collaborators \<Rightarrow> 'k network \<Rightarrow> int
     \<Rightarrow> 'k JWTPlugin \<Rightarrow> Request \<Rightarrow> TemplateVariables
     \<Rightarrow> panic + (int \<times> string option \<times> 'k JWTPlugin \<times> Request)" where
  "validate ext canon jwt net now plugin request variables =
     (case extractToken canon plugin request of
        Inl p \<Rightarrow> Inl p
      | Inr (token, request') \<Rightarrow>
          if token = [] then
            (if \<not> optional plugin
             then Inr (StatusUnauthorized, Some ''no token provided'', plugin, request')
             else Inr (StatusOK, None, plugin, request'))
          else
            (case Parse jwt net plugin token of
               Inl p \<Rightarrow> Inl p
             | Inr (Inl err, plugin') \<Rightarrow> Inr (StatusUnauthorized, Some err, plugin', request')
             | Inr (Inr parsed, plugin') \<Rightarrow>
                 (case validateClaims ext (require plugin') (Claims parsed) variables of
                    Some err \<Rightarrow>
                      (case allowRefresh plugin' now (Claims parsed) of
                         Inl p \<Rightarrow> Inl p
                       | Inr refresh \<Rightarrow>
                           if refresh then Inr (StatusUnauthorized, Some err, plugin', request')
                           else Inr (StatusForbidden, Some err, plugin', request'))
                  | None \<Rightarrow>
                      Inr (StatusOK, None, plugin',
                           mapClaimsToHeaders jwt (Claims parsed) request'))))"

text \<open>
  To run the pipeline: collaborators for which every token text decodes to the given
  token and verifies with any key, and which leave the request as it is.
\<close>

definition accepting :: "Token \<Rightarrow> string collaborators" where
  "accepting token =
     \<lparr>decode = (\<lambda>text. Inr token), verify = (\<lambda>key text parsed. None),
      mapClaimsToHeaders = (\<lambda>claims request. request)\<rparr>"

text \<open>
  The number that a JSON numeral without exponent denotes, as a mantissa \<open>m\<close> and a
  count \<open>d\<close> of fraction digits: the numeral denotes \<open>m / 10 ^ d\<close>.
\<close>

definition json_number_value :: "string \<Rightarrow> (int \<times> nat) option" where
  "json_number_value s =
     (let whole = takeWhile (\<lambda>c. c \<noteq> CHR ''.'') s;
          rest = dropWhile (\<lambda>c. c \<noteq> CHR ''.'') s
      in case rest of
           [] \<Rightarrow> map_option (\<lambda>m. (m, 0)) (parse_decimal whole)
         | point # fraction \<Rightarrow>
             if fraction = [] then None
             else map_option (\<lambda>m. (m, length fraction)) (parse_decimal (whole @ fraction)))"

section \<open>Claims about the outcome of a claim failure\<close>

lemma fetchKeys_config:
  "freshness (snd (fetchKeys net plugin issuer)) = freshness plugin
   \<and> require (snd (fetchKeys net plugin issuer)) = require plugin"
  by (simp add: fetchKeys_def Let_def purgeKeys_def split: sum.splits)

lemma getKey_after:
  assumes "getKey net plugin token = Inr (result, plugin', trace)"
  shows "plugin' = plugin \<or> (\<exists>issuer. plugin' = snd (fetchKeys net plugin issuer))"
proof (cases "(issuers plugin = [] \<and> keys plugin = []) \<or> map_of (Header token) ''kid'' = None")
  case True
  with assms show ?thesis by (auto simp: getKey_no_kid)
next
  case False
  then obtain kid where conf: "issuers plugin \<noteq> [] \<or> keys plugin \<noteq> []"
    and kid: "map_of (Header token) ''kid'' = Some kid" by auto
  show ?thesis
  proof (cases "\<exists>k. kid = Str k")
    case False
    with conf kid assms show ?thesis by (auto simp: getKey_panic)
  next
    case True
    then obtain k where k: "kid = Str k" ..
    show ?thesis
    proof (cases "map_of (keys plugin) k")
      case (Some key)
      with kid k assms show ?thesis by (auto simp: getKey_hit)
    next
      case None
      show ?thesis
      proof (cases "\<exists>iss. map_of (Claims token) ''iss'' = Some (Str iss)")
        case False
        with conf kid k None assms show ?thesis by (auto simp: getKey_no_issuer)
      next
        case True
        then obtain iss where iss: "map_of (Claims token) ''iss'' = Some (Str iss)" ..
        show ?thesis
        proof (cases "isValidIssuer plugin (canonicalizeDomain iss)")
          case False
          with conf kid k None iss assms show ?thesis by (auto simp: getKey_invalid_issuer)
        next
          case True
          obtain ferr p where f: "fetchKeys net plugin (canonicalizeDomain iss) = (ferr, p)"
            by (cases "fetchKeys net plugin (canonicalizeDomain iss)")
          with conf kid k None iss True assms have "plugin' = p"
            by (auto simp: getKey_refresh)
          with f have "plugin' = snd (fetchKeys net plugin (canonicalizeDomain iss))" by simp
          then show ?thesis by blast
        qed
      qed
    qed
  qed
qed

lemma Parse_config:
  assumes "Parse jwt net plugin text = Inr (outcome, plugin')"
  shows "freshness plugin' = freshness plugin \<and> require plugin' = require plugin"
proof (cases "decode jwt text")
  case (Inl err)
  with assms show ?thesis by (simp add: Parse_def)
next
  case (Inr token)
  with assms obtain result trace where "getKey net plugin token = Inr (result, plugin', trace)"
    by (auto simp: Parse_def split: sum.splits prod.splits option.splits)
  then have "plugin' = plugin \<or> (\<exists>issuer. plugin' = snd (fetchKeys net plugin issuer))"
    by (rule getKey_after)
  then show ?thesis using fetchKeys_config by auto
qed

lemma validate_claim_failure:
  assumes "extractToken canon plugin request = Inr (text, request')" and "text \<noteq> []"
    and "Parse jwt net plugin text = Inr (Inr parsed, plugin')"
    and "validateClaims ext (require plugin) (Claims parsed) variables = Some err"
  shows "validate ext canon jwt net now plugin request variables
           = (case allowRefresh plugin now (Claims parsed) of
                Inl p \<Rightarrow> Inl p
              | Inr refresh \<Rightarrow>
                  Inr (if refresh then StatusUnauthorized else StatusForbidden,
                       Some err, plugin', request'))"
proof -
  from Parse_config [OF assms(3)]
  have "freshness plugin' = freshness plugin" and r: "require plugin' = require plugin"
    by simp_all
  then have "allowRefresh plugin' now (Claims parsed) = allowRefresh plugin now (Claims parsed)"
    by (simp only: allowRefresh_def)
  then show ?thesis
    using assms r by (simp add: validate_def split: sum.splits)
qed

text \<open>
  C3: a token whose claims fail validation and whose \<open>iat\<close> is the number 1692451139.5,
  with the freshness window 3600 and the clock at 1700000000. The token is older than
  the window (\<open>now - iat > F\<close>), so the claim, like the comment on \<open>allowRefresh\<close>,
  gives Unauthorized; \<open>Int64()\<close> fails on a numeral with a fraction, \<open>allowRefresh\<close>
  returns \<open>false\<close> and the outcome is Forbidden.
\<close>

theorem C3_fractional_iat_forbidden:
  "json_number_value ''1692451139.5'' = Some (16924511395, 1)
   \<and> (1700000000 :: int) * 10 ^ 1 - 16924511395 > 3600 * 10 ^ 1
   \<and> validate plain_externals (\<lambda>name. name)
       (accepting \<lparr>Header = [(''alg'', Str ''HS256'')],
                   Claims = [(''aud'', Str ''other''), (''iat'', Number ''1692451139.5'')]\<rparr>)
       failing_network 1700000000
       \<lparr>secret = Some ''fixed secret'', issuers = [], require = [(''aud'', [ValueRequirement (Str ''test'') Null])],
        keys = [], issuerKeys = [], optional = False, cookieName = ''Authorization'',
        headerName = ''Authorization'', parameterName = [], forwardToken = True,
        freshness = 3600\<rparr>
       \<lparr>Cookies = [], RequestHeader = [(''Authorization'', [''Bearer t''])], Query = []\<rparr>
       Map.empty
     = Inr (StatusForbidden, Some ''claim is not valid: aud'',
            \<lparr>secret = Some ''fixed secret'', issuers = [], require = [(''aud'', [ValueRequirement (Str ''test'') Null])],
             keys = [], issuerKeys = [], optional = False, cookieName = ''Authorization'',
             headerName = ''Authorization'', parameterName = [], forwardToken = True,
             freshness = 3600\<rparr>,
            \<lparr>Cookies = [], RequestHeader = [(''Authorization'', [''Bearer t''])], Query = []\<rparr>)"
proof -
  let ?token = "\<lparr>Header = [(''alg'', Str ''HS256'')],
      Claims = [(''aud'', Str ''other''), (''iat'', Number ''1692451139.5'')]\<rparr>"
  let ?plugin = "\<lparr>secret = Some ''fixed secret'', issuers = [],
      require = [(''aud'', [ValueRequirement (Str ''test'') Null])],
      keys = [], issuerKeys = [], optional = False, cookieName = ''Authorization'',
      headerName = ''Authorization'', parameterName = [], forwardToken = True,
      freshness = 3600\<rparr> :: string JWTPlugin"
  let ?request = "\<lparr>Cookies = [], RequestHeader = [(''Authorization'', [''Bearer t''])],
      Query = []\<rparr>"
  have denotes: "json_number_value ''1692451139.5'' = Some (16924511395, 1)"
    by (simp add: json_number_value_def parse_decimal_def ParseUint_def digit_value_def)
  have extracted: "extractToken (\<lambda>name. name) ?plugin ?request = Inr (''t'', ?request)"
    by (simp add: extractToken_def extractTokenFromCookie_def extractTokenFromHeader_def
        EqualFold_def ToLower_def)
  have parsed_ok: "Parse (accepting ?token) failing_network ?plugin ''t'' = Inr (Inr ?token, ?plugin)"
    by (simp add: Parse_def accepting_def getKey_def)
  have failed: "validateClaims plain_externals (require ?plugin) (Claims ?token) Map.empty
      = Some ''claim is not valid: aud''"
    by simp
  have no_int: "Int64 ''1692451139.5'' = None"
    by (simp add: Int64_def parse_decimal_def ParseUint_def digit_value_def)
  have no_refresh: "allowRefresh ?plugin 1700000000 (Claims ?token) = Inr False"
    by (simp add: allowRefresh_def no_int)
  have "validate plain_externals (\<lambda>name. name) (accepting ?token) failing_network 1700000000
      ?plugin ?request Map.empty
      = Inr (StatusForbidden, Some ''claim is not valid: aud'', ?plugin, ?request)"
    using validate_claim_failure [OF extracted _ parsed_ok failed, where now = 1700000000]
      no_refresh
    by simp
  with denotes show ?thesis by simp
qed

text \<open>
  C4: the same request and configuration, with a token whose \<open>iat\<close> claim is the string
  \<open>2023-08-19\<close>. The token parses (the parser does not look at \<open>iat\<close>), its \<open>aud\<close> claim
  fails validation, and the freshness check panics on \<open>iat.(json.Number)\<close>: there is no
  401 or 403 outcome.
\<close>

theorem C4_nonnumeric_iat_panics:
  "validate plain_externals (\<lambda>name. name)
     (accepting \<lparr>Header = [(''alg'', Str ''HS256'')],
                 Claims = [(''aud'', Str ''other''), (''iat'', Str ''2023-08-19'')]\<rparr>)
     failing_network 1700000000
     \<lparr>secret = Some ''fixed secret'', issuers = [],
      require = [(''aud'', [ValueRequirement (Str ''test'') Null])],
      keys = [], issuerKeys = [], optional = False, cookieName = ''Authorization'',
      headerName = ''Authorization'', parameterName = [], forwardToken = True,
      freshness = 3600\<rparr>
     \<lparr>Cookies = [], RequestHeader = [(''Authorization'', [''Bearer t''])], Query = []\<rparr>
     Map.empty
   = Inl (Panic ''interface conversion: interface {} is not json.Number'')"
proof -
  let ?token = "\<lparr>Header = [(''alg'', Str ''HS256'')],
      Claims = [(''aud'', Str ''other''), (''iat'', Str ''2023-08-19'')]\<rparr>"
  let ?plugin = "\<lparr>secret = Some ''fixed secret'', issuers = [],
      require = [(''aud'', [ValueRequirement (Str ''test'') Null])],
      keys = [], issuerKeys = [], optional = False, cookieName = ''Authorization'',
      headerName = ''Authorization'', parameterName = [], forwardToken = True,
      freshness = 3600\<rparr> :: string JWTPlugin"
  let ?request = "\<lparr>Cookies = [], RequestHeader = [(''Authorization'', [''Bearer t''])],
      Query = []\<rparr>"
  have extracted: "extractToken (\<lambda>name. name) ?plugin ?request = Inr (''t'', ?request)"
    by (simp add: extractToken_def extractTokenFromCookie_def extractTokenFromHeader_def
        EqualFold_def ToLower_def)
  have nonempty: "''t'' \<noteq> []"
    by simp
  have parsed_ok:
    "Parse (accepting ?token) failing_network ?plugin ''t'' = Inr (Inr ?token, ?plugin)"
    by (simp add: Parse_def accepting_def getKey_def)
  have failed: "validateClaims plain_externals (require ?plugin) (Claims ?token) Map.empty
      = Some ''claim is not valid: aud''"
    by simp
  have crash: "allowRefresh ?plugin 1700000000 (Claims ?token)
      = Inl (Panic ''interface conversion: interface {} is not json.Number'')"
    by (simp add: allowRefresh_def)
  show ?thesis
    using validate_claim_failure [OF extracted nonempty parsed_ok failed, where now = 1700000000]
      crash
    by simp
qed

end
